theory Spec2Isabelle
  imports Complex_Main "HOL-Library.Word" "HOL-Library.Signed_Division"
begin

unbundle bit_operations_syntax

section \<open>Data model\<close>

type_synonym uvec2 = "nat \<times> nat"
type_synonym ivec2 = "int \<times> int"

text \<open>
  A source image is a \<open>span<const uint32_t, NDS_SCREEN_AREA>\<close>: a flat array of pixels
  read by index.
\<close>

type_synonym SourceImage = "nat \<Rightarrow> 32 word"

text \<open>
  Modelled from the spec: the screen dimensions \<open>NDS_SCREEN_WIDTH\<close>,
  \<open>NDS_SCREEN_HEIGHT\<close>, \<open>NDS_SCREEN_SIZE\<close> are declared in a header that is not among
  the sources ("fixed-width by fixed-height"); the emulated screens are 256 by 192.
\<close>

definition NDS_SCREEN_WIDTH :: nat where
  "NDS_SCREEN_WIDTH = 256"

definition NDS_SCREEN_HEIGHT :: nat where
  "NDS_SCREEN_HEIGHT = 192"

definition NDS_SCREEN_SIZE :: uvec2 where
  "NDS_SCREEN_SIZE = (NDS_SCREEN_WIDTH, NDS_SCREEN_HEIGHT)"

text \<open>
  Modelled from the spec: the enumeration \<open>ScreenLayout\<close> is declared in
  screenlayout.hpp, which is not among the sources. The variants that software.cpp names
  keep their names; \<open>TopBottom\<close> and its "flipped/mirrored siblings" are the spec's, the
  siblings numbered since the spec does not name them.
\<close>

datatype ScreenLayout =
    TopBottom
  | TopBottomSibling nat
  | TopOnly
  | BottomOnly
  | HybridTop
  | HybridBottom
  | FlippedHybridTop
  | FlippedHybridBottom
  | LargescreenTop
  | LargescreenBottom
  | FlippedLargescreenTop
  | FlippedLargescreenBottom

text \<open>
  Modelled from the spec: \<open>IsHybridLayout\<close> and \<open>IsLargeScreenLayout\<close> are declared
  in screenlayout.hpp; the spec's variant set is "HybridTop, HybridBottom (+ flipped),
  LargescreenTop, LargescreenBottom (+ flipped)".
\<close>

definition IsHybridLayout :: "ScreenLayout \<Rightarrow> bool" where
  "IsHybridLayout layout \<longleftrightarrow>
     layout = HybridTop \<or> layout = HybridBottom
     \<or> layout = FlippedHybridTop \<or> layout = FlippedHybridBottom"

definition IsLargeScreenLayout :: "ScreenLayout \<Rightarrow> bool" where
  "IsLargeScreenLayout layout \<longleftrightarrow>
     layout = LargescreenTop \<or> layout = LargescreenBottom
     \<or> layout = FlippedLargescreenTop \<or> layout = FlippedLargescreenBottom"

text \<open>
  Modelled from the spec: the enumerations \<open>HybridSideScreenDisplay\<close> ("Both |
  FocusedOnly") and \<open>ScreenFilter\<close> ("nearest / smooth") are declared in
  config/types.hpp, not among the sources; software.cpp names \<open>Both\<close> and
  \<open>Nearest\<close>. The scaler types are libretro-common's.
\<close>

datatype HybridSideScreenDisplay = Both | FocusedOnly

datatype ScreenFilter = Nearest | Smooth

datatype ScalerType = SCALER_TYPE_POINT | SCALER_TYPE_BILINEAR

text \<open>
  Modelled from the spec: \<open>ScreenLayoutData\<close> (screenlayout.hpp) holds the "precomputed
  per-variant data: destination translations for each screen, required output size,
  magnification ratio, ... and how the non-primary screen is displayed". Its bottom-screen
  matrix is a floating-point \<open>mat3\<close>; the field \<open>GetBottomScreenMatrix\<close> is the map
  \<open>p \<mapsto> ivec2(matrix * vec3(p, 1))\<close> that \<open>DrawCursor\<close> applies, taken as given.
\<close>

record ScreenLayoutData =
  Layout :: ScreenLayout
  BufferSize :: uvec2
  HybridRatio :: nat
  HybridSmallScreenLayout :: HybridSideScreenDisplay
  GetTopScreenTranslation :: uvec2
  GetBottomScreenTranslation :: uvec2
  GetHybridScreenTranslation :: uvec2
  GetBottomScreenMatrix :: "ivec2 \<Rightarrow> ivec2"

text \<open>What \<open>Render\<close> and \<open>DrawCursor\<close> read of the input state, the configuration and the console.\<close>

record InputState =
  TouchPosition :: ivec2
  CursorVisible :: bool

record CoreConfig =
  CursorSize :: int
  ConfigScreenFilter :: ScreenFilter

record NDS =
  TopFramebuffer :: SourceImage
  BottomFramebuffer :: SourceImage
  IsLidClosed :: bool

text \<open>
  Modelled from the spec: \<open>PixelBuffer\<close> (the class of \<open>buffer\<close> and \<open>hybridBuffer\<close>)
  is not among the sources. It is "an owned, resizable pixel surface with helpers to clear,
  to copy a full rectangular region with translation (direct copy), and to copy row-by-row
  with translation". The surface is a map from pixel coordinates to pixels, with its logical
  size; \<open>buffer[uvec2(x, y)]\<close> is \<open>pixel buffer (x, y)\<close>.
\<close>

record PixelBuffer =
  Size :: uvec2
  pixel :: "uvec2 \<Rightarrow> 32 word"

text \<open>
  Modelled from the spec: the "clear value" that \<open>Clear\<close> leaves in every pixel; the
  spec does not give its bits, zeroed memory is taken.
\<close>

definition ClearValue :: "32 word" where
  "ClearValue = 0"

text \<open>
  Modelled from the spec: \<open>PixelBuffer::SetSize\<close> ("resized to the layout's required
  dimensions"); the content after a resize is not specified and is kept as it was.
\<close>

definition SetSize :: "PixelBuffer \<Rightarrow> uvec2 \<Rightarrow> PixelBuffer" where
  "SetSize buf newSize = buf\<lparr>Size := newSize\<rparr>"

text \<open>Modelled from the spec: \<open>PixelBuffer::Clear\<close> ("clear OutputBuffer fully").\<close>

definition Clear :: "PixelBuffer \<Rightarrow> PixelBuffer" where
  "Clear buf = buf\<lparr>pixel := (\<lambda>p. ClearValue)\<rparr>"

text \<open>The pixels of the rectangle of a given extent at a destination.\<close>

definition in_rect :: "uvec2 \<Rightarrow> uvec2 \<Rightarrow> uvec2 \<Rightarrow> bool" where
  "in_rect destination extent p \<longleftrightarrow>
     fst destination \<le> fst p \<and> fst p < fst destination + fst extent
     \<and> snd destination \<le> snd p \<and> snd p < snd destination + snd extent"

text \<open>
  Modelled from the spec: \<open>PixelBuffer::CopyRows\<close> ("copy row-by-row with translation"):
  row \<open>j\<close> of the source, \<open>fst destinationSize\<close> pixels long, goes to row
  \<open>snd destination + j\<close> from column \<open>fst destination\<close> on. The destination
  rectangle lies in the surface by the layout's contract, which the model does not check.
\<close>

definition CopyRows :: "PixelBuffer \<Rightarrow> SourceImage \<Rightarrow> uvec2 \<Rightarrow> uvec2 \<Rightarrow> PixelBuffer" where
  "CopyRows buf source destination destinationSize =
     buf\<lparr>pixel := (\<lambda>p.
       if in_rect destination destinationSize p
       then source ((snd p - snd destination) * fst destinationSize + (fst p - fst destination))
       else pixel buf p)\<rparr>"

text \<open>
  Modelled from the spec: \<open>PixelBuffer::CopyDirect\<close> ("copy a full rectangular region
  with translation", used when the screen's destination rows are contiguous in the buffer):
  the whole screen goes to the rectangle at the destination.
\<close>

definition CopyDirect :: "PixelBuffer \<Rightarrow> SourceImage \<Rightarrow> uvec2 \<Rightarrow> PixelBuffer" where
  "CopyDirect buf source destination = CopyRows buf source destination NDS_SCREEN_SIZE"

text \<open>
  Modelled from the spec: \<open>buffer[0]\<close>, the surface as the flat, row-major array that a
  copy reads.
\<close>

definition buffer_data :: "PixelBuffer \<Rightarrow> SourceImage" where
  "buffer_data buf = (\<lambda>i. pixel buf (i mod fst (Size buf), i div fst (Size buf)))"

text \<open>
  The lambda \<open>set_px\<close> of \<open>DrawCursor\<close>: \<open>buffer[uvec2(x, y)] = c\<close>, with
  \<open>PixelBuffer::operator[]\<close> the pixel at a coordinate. The conversion of a negative
  \<open>int\<close> to \<open>unsigned\<close> gives a coordinate of at least \<open>2\<^sup>3\<^sup>1\<close>; the model
  takes every coordinate outside \<open>[0, W) \<times> [0, H)\<close> for an access out of bounds, the
  error \<open>OutOfBounds\<close>, so a run without error writes inside the surface only.
\<close>

datatype error = OutOfBounds

definition set_px :: "PixelBuffer \<Rightarrow> int \<Rightarrow> int \<Rightarrow> 32 word \<Rightarrow> error + PixelBuffer" where
  "set_px buf x y c =
     (if 0 \<le> x \<and> x < int (fst (Size buf)) \<and> 0 \<le> y \<and> y < int (snd (Size buf))
      then Inr (buf\<lparr>pixel := (pixel buf)((nat x, nat y) := c)\<rparr>)
      else Inl OutOfBounds)"

text \<open>
  The scaler (libretro-common) is outside the repository: its state is the filter and the
  output size, and its resampling function is a parameter of the model. So is
  \<open>LayoutSupportsDirectCopy\<close> (screenlayout.hpp), which the spec does not give per variant.
\<close>

record Scaler =
  scaler_type :: ScalerType
  out_size :: uvec2

record Externals =
  LayoutSupportsDirectCopy :: "ScreenLayout \<Rightarrow> bool"
  ScalerScale :: "Scaler \<Rightarrow> SourceImage \<Rightarrow> SourceImage"

record SoftwareRenderState =
  buffer :: PixelBuffer
  hybridBuffer :: PixelBuffer
  hybridScaler :: Scaler

section \<open>The cursor pattern\<close>

subsection \<open>Floor division (software.cpp, the lambda \<open>floor_div\<close> in \<open>DrawCursor\<close>)\<close>

text \<open>
  The C++ operators \<open>/\<close> and \<open>%\<close> on \<open>int\<close> truncate towards zero; they are
  \<open>sdiv\<close> and \<open>smod\<close> here, not HOL's flooring \<open>div\<close> and \<open>mod\<close>.
  \<^verbatim>\<open>
  auto floor_div = [](int a, int b) {
      int q = a / b, r = a % b;
      return (r && (a < 0)) ? (q - 1) : q;
  };
  \<close>
\<close>

definition floor_div :: "int \<Rightarrow> int \<Rightarrow> int" where
  "floor_div a b =
     (let q = a sdiv b; r = a smod b
      in if r \<noteq> 0 \<and> a < 0 then q - 1 else q)"

text \<open>
  The same lambda on the 32-bit \<open>int\<close> of the target: the operands are read as two's
  complement, and each result is cut to 32 bits.
\<close>

definition floor_div32 :: "32 word \<Rightarrow> 32 word \<Rightarrow> 32 word" where
  "floor_div32 a b =
     (let q = word_of_int (sint a sdiv sint b) :: 32 word;
          r = word_of_int (sint a smod sint b) :: 32 word
      in if r \<noteq> 0 \<and> a <s 0 then q - 1 else q)"

subsection \<open>Classification of a base-grid cell\<close>

datatype Paint = White | Black | Untouched

text \<open>
  The body of the CPU loop after \<open>bx\<close> and \<open>by\<close> are known (software.cpp):
  \<^verbatim>\<open>
  const int abx = std::abs(bx);
  const int aby = std::abs(by);
  bool inWhite3x3 = (abx <= 1 && aby <= 1);
  bool isCorner   = (abx == 2 && aby == 2);
  bool inRing     = !isCorner &&
                  ( (aby == 2 && abx <= 1) || (abx == 2 && aby <= 1) );
  if (inWhite3x3) { set_px(x, y, 0xFFFFFFFF); }
  else if (inRing) { set_px(x, y, 0xFF000000); }
  \<close>
\<close>

definition cpu_cell :: "int \<Rightarrow> int \<Rightarrow> Paint" where
  "cpu_cell bx by' =
     (let abx = \<bar>bx\<bar>;
          aby = \<bar>by'\<bar>;
          inWhite3x3 = (abx \<le> 1 \<and> aby \<le> 1);
          isCorner = (abx = 2 \<and> aby = 2);
          inRing = (\<not> isCorner \<and> ((aby = 2 \<and> abx \<le> 1) \<or> (abx = 2 \<and> aby \<le> 1)))
      in if inWhite3x3 then White else if inRing then Black else Untouched)"

text \<open>
  The fragment shader after the buckets \<open>bx\<close>, \<open>by\<close> are known (melondsds.frag):
  \<^verbatim>\<open>
  int dx = bx - 2;
  int dy = by - 2;
  int adx = abs(dx);
  int ady = abs(dy);
  bool inWhite3x3 = (adx <= 1 && ady <= 1);
  bool onOuterRow = (by == 0 || by == 4);
  bool onOuterCol = (bx == 0 || bx == 4);
  bool isCorner   = onOuterRow && onOuterCol;
  bool inRing = !isCorner && ((onOuterRow && adx <= 1) || (onOuterCol && ady <= 1));
  if (inWhite3x3) pixel.rgb = vec3(1.0);
  else if (inRing) pixel.rgb = vec3(0.0);
  \<close>
\<close>

definition frag_cell :: "int \<Rightarrow> int \<Rightarrow> Paint" where
  "frag_cell bx by' =
     (let dx = bx - 2;
          dy = by' - 2;
          adx = \<bar>dx\<bar>;
          ady = \<bar>dy\<bar>;
          inWhite3x3 = (adx \<le> 1 \<and> ady \<le> 1);
          onOuterRow = (by' = 0 \<or> by' = 4);
          onOuterCol = (bx = 0 \<or> bx = 4);
          isCorner = (onOuterRow \<and> onOuterCol);
          inRing = (\<not> isCorner \<and> ((onOuterRow \<and> adx \<le> 1) \<or> (onOuterCol \<and> ady \<le> 1)))
      in if inWhite3x3 then White else if inRing then Black else Untouched)"

section \<open>The CPU cursor overlay (software.cpp, \<open>DrawCursor\<close>)\<close>

text \<open>\<open>glm::clamp(x, minVal, maxVal)\<close> is \<open>min(max(x, minVal), maxVal)\<close>, per component.\<close>

definition clamp :: "'a::linorder \<Rightarrow> 'a \<Rightarrow> 'a \<Rightarrow> 'a" where
  "clamp x minVal maxVal = min (max x minVal) maxVal"

text \<open>
  The arithmetic of \<open>DrawCursor\<close> is that of the target's 32-bit \<open>int\<close> and
  \<open>unsigned\<close>, with the wrap-around written out: \<open>i32\<close> cuts an integer to a signed
  32-bit value (the result of an \<open>int\<close> operation, or a conversion to \<open>int\<close>),
  \<open>u32\<close> to an unsigned one. A value of type \<open>int\<close> is an integer in
  \<open>[-2\<^sup>3\<^sup>1, 2\<^sup>3\<^sup>1)\<close>, compared as such.
\<close>

definition i32 :: "int \<Rightarrow> int" where
  "i32 k = (k + 2147483648) mod 4294967296 - 2147483648"

definition u32 :: "int \<Rightarrow> int" where
  "u32 k = k mod 4294967296"

text \<open>
  The value assigned to \<open>scale\<close>, before its conversion to \<open>int\<close>
  (\<open>HybridRatio()\<close> is unsigned):
  \<^verbatim>\<open>
  int scale;
  if (screenLayout.Layout() == ScreenLayout::LargescreenBottom ||
      screenLayout.Layout() == ScreenLayout::FlippedLargescreenBottom) {
      scale = screenLayout.HybridRatio();
  } else {
      scale = 1;
  }
  \<close>
\<close>

definition cursor_scale :: "ScreenLayoutData \<Rightarrow> int" where
  "cursor_scale screenLayout =
     (if Layout screenLayout = LargescreenBottom
         \<or> Layout screenLayout = FlippedLargescreenBottom
      then int (HybridRatio screenLayout)
      else 1)"

text \<open>
  \<^verbatim>\<open>
  ivec2 cursorSize = ivec2(config.CursorSize());
  ivec2 clampedTouch = clamp(input.TouchPosition(), ivec2(0),
                             ivec2(NDS_SCREEN_WIDTH - 1, NDS_SCREEN_HEIGHT - 1));
  ivec2 transformedTouch = screenLayout.GetBottomScreenMatrix() * vec3(clampedTouch, 1);
  uvec2 start = clamp(transformedTouch - ivec2(cursorSize), ivec2(0), ivec2(buffer.Size()));
  uvec2 end = clamp(transformedTouch + ivec2(cursorSize), ivec2(0), ivec2(buffer.Size()));
  int centerX = (start.x + end.x) / 2;
  int centerY = (start.y + end.y) / 2;
  \<close>
  The differences and sums are \<open>int\<close> operations; \<open>ivec2(buffer.Size())\<close> converts the
  unsigned size to \<open>int\<close>; \<open>start\<close> and \<open>end\<close> are unsigned, so their sum is an
  unsigned operation, halved and converted to \<open>int\<close>. The values read from the input, the
  configuration and the matrix product are \<open>int\<close>s.
\<close>

definition cursor_center :: "InputState \<Rightarrow> CoreConfig \<Rightarrow> ScreenLayoutData \<Rightarrow> uvec2 \<Rightarrow> ivec2" where
  "cursor_center input config screenLayout bufferSize =
     (let cursorSize = i32 (CursorSize config);
          clampedTouch =
            (clamp (i32 (fst (TouchPosition input))) 0 (int NDS_SCREEN_WIDTH - 1),
             clamp (i32 (snd (TouchPosition input))) 0 (int NDS_SCREEN_HEIGHT - 1));
          transformedTouch = GetBottomScreenMatrix screenLayout clampedTouch;
          transformedX = i32 (fst transformedTouch);
          transformedY = i32 (snd transformedTouch);
          sizeX = i32 (int (fst bufferSize));
          sizeY = i32 (int (snd bufferSize));
          startX = u32 (clamp (i32 (transformedX - cursorSize)) 0 sizeX);
          startY = u32 (clamp (i32 (transformedY - cursorSize)) 0 sizeY);
          endX = u32 (clamp (i32 (transformedX + cursorSize)) 0 sizeX);
          endY = u32 (clamp (i32 (transformedY + cursorSize)) 0 sizeY);
          centerX = i32 (u32 (startX + endX) div 2);
          centerY = i32 (u32 (startY + endY) div 2)
      in (centerX, centerY))"

text \<open>
  One iteration of the inner loop, as the \<open>set_px\<close> calls it makes (at most one). The
  centre is in \<open>[0, 2\<^sup>3\<^sup>1)\<close> (the half of an unsigned value) and the counters are in
  \<open>[0, 2\<^sup>3\<^sup>1)\<close>, so \<open>x - cx\<close> and \<open>y - cy\<close> do not overflow, and with them neither
  \<open>floor_div\<close> nor \<open>std::abs\<close> (lemmas \<open>cursor_center_range\<close>,
  \<open>floor_div32_sint\<close>):
  \<^verbatim>\<open>
  const int bx = floor_div(x - cx, scale);
  const int by = floor_div(y - cy, scale);
  ...
  if (inWhite3x3) { set_px(x, y, 0xFFFFFFFF); }
  else if (inRing) { set_px(x, y, 0xFF000000); }
  \<close>
\<close>

definition cursor_px :: "int \<Rightarrow> int \<Rightarrow> int \<Rightarrow> int \<Rightarrow> int \<Rightarrow> (int \<times> int \<times> 32 word) list" where
  "cursor_px cx cy scale x y =
     (let bx = floor_div (x - cx) scale;
          by' = floor_div (y - cy) scale
      in case cpu_cell bx by' of
           White \<Rightarrow> [(x, y, 0xFFFFFFFF)]
         | Black \<Rightarrow> [(x, y, 0xFF000000)]
         | Untouched \<Rightarrow> [])"

text \<open>
  \<open>for (int x = sx; x <= ex; ++x)\<close>, from the current \<open>x\<close> on. The increment does not
  overflow as long as \<open>ex\<close> is below the largest \<open>int\<close>, which it is for every scale
  of at least 1 (lemma \<open>cursor_bounds_below_max\<close>).
\<close>

function cursor_row :: "int \<Rightarrow> int \<Rightarrow> int \<Rightarrow> int \<Rightarrow> int \<Rightarrow> int \<Rightarrow> (int \<times> int \<times> 32 word) list" where
  "cursor_row cx cy scale ex y x =
     (if x \<le> ex then cursor_px cx cy scale x y @ cursor_row cx cy scale ex y (x + 1) else [])"
  by pat_completeness auto
termination
  by (relation "measure (\<lambda>(cx, cy, scale, ex, y, x). nat (ex + 1 - x))") auto

declare cursor_row.simps [simp del]

text \<open>\<open>for (int y = sy; y <= ey; ++y)\<close>, from the current \<open>y\<close> on.\<close>

function cursor_rows :: "int \<Rightarrow> int \<Rightarrow> int \<Rightarrow> int \<Rightarrow> int \<Rightarrow> int \<Rightarrow> int \<Rightarrow> (int \<times> int \<times> 32 word) list" where
  "cursor_rows cx cy scale sx ex ey y =
     (if y \<le> ey then cursor_row cx cy scale ex y sx @ cursor_rows cx cy scale sx ex ey (y + 1)
      else [])"
  by pat_completeness auto
termination
  by (relation "measure (\<lambda>(cx, cy, scale, sx, ex, ey, y). nat (ey + 1 - y))") auto

declare cursor_rows.simps [simp del]

text \<open>
  The \<open>set_px\<close> calls of the whole double loop, in order, for the \<open>int\<close>s \<open>W\<close>,
  \<open>H\<close>, \<open>cx\<close>, \<open>cy\<close> and \<open>scale\<close>; every operation is an \<open>int\<close> operation:
  \<^verbatim>\<open>
  const int sx = std::max(0,     cx - 2*scale);
  const int sy = std::max(0,     cy - 2*scale);
  const int ex = std::min(W - 1, cx + 2*scale + (scale - 1));
  const int ey = std::min(H - 1, cy + 2*scale + (scale - 1));
  \<close>
\<close>

definition cursor_calls :: "int \<Rightarrow> int \<Rightarrow> int \<Rightarrow> int \<Rightarrow> int \<Rightarrow> (int \<times> int \<times> 32 word) list" where
  "cursor_calls W H cx cy scale =
     (let sx = max 0 (i32 (cx - i32 (2 * scale)));
          sy = max 0 (i32 (cy - i32 (2 * scale)));
          ex = min (i32 (W - 1)) (i32 (i32 (cx + i32 (2 * scale)) + i32 (scale - 1)));
          ey = min (i32 (H - 1)) (i32 (i32 (cy + i32 (2 * scale)) + i32 (scale - 1)))
      in cursor_rows cx cy scale sx ex ey sy)"

text \<open>Running \<open>set_px\<close> calls in order; the first access out of bounds ends the run.\<close>

fun set_px_all :: "PixelBuffer \<Rightarrow> (int \<times> int \<times> 32 word) list \<Rightarrow> error + PixelBuffer" where
  "set_px_all buf [] = Inr buf"
| "set_px_all buf ((x, y, c) # calls) =
     (case set_px buf x y c of Inl e \<Rightarrow> Inl e | Inr buf' \<Rightarrow> set_px_all buf' calls)"

text \<open>
  \<open>DrawCursor\<close>: the early return for \<open>TopOnly\<close> makes no call; otherwise the calls
  of the double loop, with centre and scale computed as above and
  \<open>const int W = int(buffer.Size().x)\<close>, \<open>const int H = int(buffer.Size().y)\<close>. The
  calls are then run on \<open>buffer\<close>.
\<close>

definition DrawCursor_calls :: "InputState \<Rightarrow> CoreConfig \<Rightarrow> ScreenLayoutData \<Rightarrow> uvec2 \<Rightarrow> (int \<times> int \<times> 32 word) list" where
  "DrawCursor_calls input config screenLayout bufferSize =
     (if Layout screenLayout = TopOnly then []
      else
        (let center = cursor_center input config screenLayout bufferSize;
             scale = i32 (cursor_scale screenLayout);
             W = i32 (int (fst bufferSize));
             H = i32 (int (snd bufferSize));
             cx = fst center;
             cy = snd center
         in cursor_calls W H cx cy scale))"

definition DrawCursor :: "InputState \<Rightarrow> CoreConfig \<Rightarrow> ScreenLayoutData \<Rightarrow> SoftwareRenderState \<Rightarrow> error + SoftwareRenderState" where
  "DrawCursor input config screenLayout st =
     (case set_px_all (buffer st)
             (DrawCursor_calls input config screenLayout (Size (buffer st))) of
        Inl e \<Rightarrow> Inl e
      | Inr buf \<Rightarrow> Inr (st\<lparr>buffer := buf\<rparr>))"





section \<open>The compositor (software.cpp, \<open>CombineScreens\<close> and \<open>CopyScreen\<close>)\<close>

text \<open>
  \<open>CombineScreens\<close> is a sequence of calls on \<open>buffer\<close>, \<open>hybridBuffer\<close> and
  \<open>hybridScaler\<close>; the model gives the calls it issues, in order, and runs them.
  A copy reads the top screen's pixels, the bottom screen's, or \<open>hybridBuffer[0]\<close>.
\<close>

datatype Screen = Top | Bottom

datatype CopySource = ScreenBuffer Screen | HybridBuffer

datatype BufferCall =
    ClearCall
  | ScaleCall Screen
  | CopyRowsCall CopySource uvec2 uvec2
  | CopyDirectCall CopySource uvec2

text \<open>\<open>NDS_SCREEN_SIZE<unsigned> * screenLayout.HybridRatio()\<close>\<close>

definition scaled_size :: "uvec2 \<Rightarrow> nat \<Rightarrow> uvec2" where
  "scaled_size sz ratio = (fst sz * ratio, snd sz * ratio)"

text \<open>
  \<^verbatim>\<open>
  if (LayoutSupportsDirectCopy(layout)) { buffer.CopyDirect(src, destTranslation); }
  else { buffer.CopyRows(src, destTranslation, NDS_SCREEN_SIZE<unsigned>); }
  \<close>
\<close>

definition CopyScreen :: "Externals \<Rightarrow> CopySource \<Rightarrow> uvec2 \<Rightarrow> ScreenLayout \<Rightarrow> BufferCall" where
  "CopyScreen ext src destTranslation layout =
     (if LayoutSupportsDirectCopy ext layout
      then CopyDirectCall src destTranslation
      else CopyRowsCall src destTranslation NDS_SCREEN_SIZE)"

text \<open>The primary screen of a magnified layout, as the two branches of \<open>CombineScreens\<close> choose it.\<close>

definition hybrid_primary :: "ScreenLayout \<Rightarrow> Screen" where
  "hybrid_primary layout =
     (if layout = HybridTop \<or> layout = FlippedHybridTop then Top else Bottom)"

definition focusTop :: "ScreenLayout \<Rightarrow> bool" where
  "focusTop layout \<longleftrightarrow> layout = LargescreenTop \<or> layout = FlippedLargescreenTop"

definition CombineScreens_calls :: "Externals \<Rightarrow> ScreenLayoutData \<Rightarrow> BufferCall list" where
  "CombineScreens_calls ext screenLayout =
     ClearCall #
     (let layout = Layout screenLayout in
      if IsHybridLayout layout then
        (let primaryBuffer = hybrid_primary layout;
             smallScreenLayout = HybridSmallScreenLayout screenLayout
         in [ScaleCall primaryBuffer,
             CopyRowsCall HybridBuffer (GetHybridScreenTranslation screenLayout)
               (scaled_size NDS_SCREEN_SIZE (HybridRatio screenLayout))]
            @ (if smallScreenLayout = Both \<or> layout = HybridBottom \<or> layout = FlippedHybridBottom
               then [CopyRowsCall (ScreenBuffer Top) (GetTopScreenTranslation screenLayout)
                       NDS_SCREEN_SIZE]
               else [])
            @ (if smallScreenLayout = Both \<or> layout = HybridTop \<or> layout = FlippedHybridTop
               then [CopyRowsCall (ScreenBuffer Bottom) (GetBottomScreenTranslation screenLayout)
                       NDS_SCREEN_SIZE]
               else []))
      else if IsLargeScreenLayout layout then
        (if focusTop layout then
           [ScaleCall Top,
            CopyRowsCall HybridBuffer (GetTopScreenTranslation screenLayout)
              (scaled_size NDS_SCREEN_SIZE (HybridRatio screenLayout)),
            CopyScreen ext (ScreenBuffer Bottom) (GetBottomScreenTranslation screenLayout) layout]
         else
           [ScaleCall Bottom,
            CopyRowsCall HybridBuffer (GetBottomScreenTranslation screenLayout)
              (scaled_size NDS_SCREEN_SIZE (HybridRatio screenLayout)),
            CopyScreen ext (ScreenBuffer Top) (GetTopScreenTranslation screenLayout) layout])
      else
        (if layout \<noteq> BottomOnly
         then [CopyScreen ext (ScreenBuffer Top) (GetTopScreenTranslation screenLayout) layout]
         else [])
        @ (if layout \<noteq> TopOnly
           then [CopyScreen ext (ScreenBuffer Bottom) (GetBottomScreenTranslation screenLayout) layout]
           else []))"

text \<open>Running one call. The scaler's output, a flat array, becomes the content of \<open>hybridBuffer\<close>.\<close>

definition screen_data :: "SourceImage \<Rightarrow> SourceImage \<Rightarrow> Screen \<Rightarrow> SourceImage" where
  "screen_data topBuffer bottomBuffer scr = (case scr of Top \<Rightarrow> topBuffer | Bottom \<Rightarrow> bottomBuffer)"

definition source_data :: "SourceImage \<Rightarrow> SourceImage \<Rightarrow> SoftwareRenderState \<Rightarrow> CopySource \<Rightarrow> SourceImage" where
  "source_data topBuffer bottomBuffer st src =
     (case src of
        ScreenBuffer scr \<Rightarrow> screen_data topBuffer bottomBuffer scr
      | HybridBuffer \<Rightarrow> buffer_data (hybridBuffer st))"

definition load_data :: "PixelBuffer \<Rightarrow> SourceImage \<Rightarrow> PixelBuffer" where
  "load_data buf d = buf\<lparr>pixel := (\<lambda>p. d (snd p * fst (Size buf) + fst p))\<rparr>"

fun perform :: "Externals \<Rightarrow> SourceImage \<Rightarrow> SourceImage \<Rightarrow> SoftwareRenderState \<Rightarrow> BufferCall \<Rightarrow> SoftwareRenderState" where
  "perform ext topBuffer bottomBuffer st ClearCall = st\<lparr>buffer := Clear (buffer st)\<rparr>"
| "perform ext topBuffer bottomBuffer st (ScaleCall scr) =
     st\<lparr>hybridBuffer := load_data (hybridBuffer st)
          (ScalerScale ext (hybridScaler st) (screen_data topBuffer bottomBuffer scr))\<rparr>"
| "perform ext topBuffer bottomBuffer st (CopyRowsCall src destination destinationSize) =
     st\<lparr>buffer := CopyRows (buffer st) (source_data topBuffer bottomBuffer st src)
                     destination destinationSize\<rparr>"
| "perform ext topBuffer bottomBuffer st (CopyDirectCall src destination) =
     st\<lparr>buffer := CopyDirect (buffer st) (source_data topBuffer bottomBuffer st src) destination\<rparr>"

definition CombineScreens :: "Externals \<Rightarrow> SourceImage \<Rightarrow> SourceImage \<Rightarrow> ScreenLayoutData \<Rightarrow> SoftwareRenderState \<Rightarrow> SoftwareRenderState" where
  "CombineScreens ext topBuffer bottomBuffer screenLayout st =
     foldl (perform ext topBuffer bottomBuffer) st (CombineScreens_calls ext screenLayout)"

section \<open>The frame (software.cpp, \<open>Render\<close>)\<close>

text \<open>
  \<open>conv_argb8888_abgr8888\<close> is libretro-common's, outside the repository: it exchanges the
  red and the blue byte of every pixel,
  \<open>((col << 16) & 0xff0000) | ((col >> 16) & 0xff) | (col & 0xff00ff00)\<close>.
\<close>

definition conv_argb8888_abgr8888 :: "32 word \<Rightarrow> 32 word" where
  "conv_argb8888_abgr8888 col =
     (push_bit 16 col AND 0xff0000) OR (drop_bit 16 col AND 0xff) OR (col AND 0xff00ff00)"

text \<open>
  What one call of \<open>Render\<close> produces: the state it leaves, the buffer it passes to
  \<open>retro::video_refresh\<close>, and the frame it passes to the profiler's \<open>FrameImage\<close>, if
  any. \<open>tracyAvailable\<close> stands for "\<open>HAVE_TRACY\<close> is defined and
  \<open>tracy::ProfilerAvailable()\<close>".
  \<^verbatim>\<open>
  buffer.SetSize(screenLayout.BufferSize());
  if (IsHybridLayout(screenLayout.Layout()) || IsLargeScreenLayout(screenLayout.Layout())) {
      uvec2 requiredHybridBufferSize = NDS_SCREEN_SIZE<unsigned> * screenLayout.HybridRatio();
      hybridBuffer.SetSize(requiredHybridBufferSize);
      auto filter = config.ScreenFilter() == ScreenFilter::Nearest
                      ? SCALER_TYPE_POINT : SCALER_TYPE_BILINEAR;
      hybridScaler.SetScalerType(filter);
      hybridScaler.SetOutSize(requiredHybridBufferSize.x, requiredHybridBufferSize.y);
  }
  CombineScreens(top, bottom, screenLayout);
  if (!nds.IsLidClosed() && inputState.CursorVisible()) {
      DrawCursor(inputState, config, screenLayout);
  }
  retro::video_refresh(buffer[0], buffer.Width(), buffer.Height(), buffer.Stride());
  #ifdef HAVE_TRACY
  if (tracy::ProfilerAvailable()) {
      std::unique_ptr<uint8_t[]> frame = ...;
      conv_argb8888_abgr8888(frame.get(), buffer[0], ...);
      // libretro wants pixels in XRGB8888 format,
      // but Tracy wants them in XBGR8888 format.
      FrameImage(frame.get(), buffer.Width(), buffer.Height(), 0, false);
  }
  #endif
  \<close>
\<close>

record RenderOutput =
  state_after :: SoftwareRenderState
  video_refresh :: PixelBuffer
  FrameImage :: "(uvec2 \<Rightarrow> 32 word) option"

text \<open>The resizing at the start of \<open>Render\<close>, up to the call of \<open>CombineScreens\<close>.\<close>

definition resize_buffers :: "CoreConfig \<Rightarrow> ScreenLayoutData \<Rightarrow> SoftwareRenderState \<Rightarrow> SoftwareRenderState" where
  "resize_buffers config screenLayout st =
     (let st1 = st\<lparr>buffer := SetSize (buffer st) (BufferSize screenLayout)\<rparr>
      in if IsHybridLayout (Layout screenLayout) \<or> IsLargeScreenLayout (Layout screenLayout)
         then
           (let requiredHybridBufferSize =
                  scaled_size NDS_SCREEN_SIZE (HybridRatio screenLayout);
                filter = (if ConfigScreenFilter config = Nearest
                          then SCALER_TYPE_POINT else SCALER_TYPE_BILINEAR)
            in st1\<lparr>hybridBuffer := SetSize (hybridBuffer st1) requiredHybridBufferSize,
                   hybridScaler := \<lparr>scaler_type = filter,
                                     out_size = requiredHybridBufferSize\<rparr>\<rparr>)
         else st1)"

text \<open>\<open>Render\<close>, from \<open>CombineScreens\<close> on.\<close>

definition Render :: "Externals \<Rightarrow> bool \<Rightarrow> NDS \<Rightarrow> InputState \<Rightarrow> CoreConfig \<Rightarrow> ScreenLayoutData \<Rightarrow> SoftwareRenderState \<Rightarrow> error + RenderOutput" where
  "Render ext tracyAvailable nds inputState config screenLayout st =
     (let st2 = resize_buffers config screenLayout st;
          st3 = CombineScreens ext (TopFramebuffer nds) (BottomFramebuffer nds) screenLayout st2
      in case (if \<not> IsLidClosed nds \<and> CursorVisible inputState
               then DrawCursor inputState config screenLayout st3
               else Inr st3) of
           Inl e \<Rightarrow> Inl e
         | Inr st4 \<Rightarrow>
             Inr \<lparr>state_after = st4,
                  video_refresh = buffer st4,
                  FrameImage =
                    (if tracyAvailable
                     then Some (\<lambda>p. conv_argb8888_abgr8888 (pixel (buffer st4) p))
                     else None)\<rparr>)"

section \<open>The fragment shader (melondsds.frag)\<close>

text \<open>
  The uniform block and \<open>main\<close>. A \<open>vec4\<close> is a 4-tuple (\<open>x, y, z, w\<close> or
  \<open>r, g, b, a\<close>), a \<open>vec2\<close> a pair. The shader's \<open>float\<close>s are read as real numbers:
  comparisons of floats are comparisons of the reals they denote, while the arithmetic that
  leads to the buckets (\<open>u * 5.0 - eps\<close>) is the exact one, without rounding.
  \<open>texel\<close> is the value of \<open>texture(ScreenTex, fTexcoord)\<close>, the initial \<open>pixel\<close>.
\<close>

type_synonym vec2 = "real \<times> real"
type_synonym vec4 = "real \<times> real \<times> real \<times> real"

record uConfig =
  uScreenSize :: vec2
  u3DScale :: nat
  uFilterMode :: nat
  cursorPos :: vec4
  cursorVisible :: bool

text \<open>
  \<^verbatim>\<open>
  bool inside =
      (fTexcoord.x >= cursorPos.x) && (fTexcoord.x < cursorPos.z) &&
      (fTexcoord.y >= cursorPos.y) && (fTexcoord.y < cursorPos.w);
  \<close>
\<close>

definition inside :: "vec4 \<Rightarrow> vec2 \<Rightarrow> bool" where
  "inside pos fTexcoord =
     (case pos of (pos_x, pos_y, pos_z, pos_w) \<Rightarrow>
        fst fTexcoord \<ge> pos_x \<and> fst fTexcoord < pos_z
        \<and> snd fTexcoord \<ge> pos_y \<and> snd fTexcoord < pos_w)"

text \<open>\<open>clamp(int(floor((u * 5.0) - eps)), 0, 4)\<close> with \<open>eps = 1e-6\<close>\<close>

definition bucket :: "real \<Rightarrow> int" where
  "bucket u = clamp \<lfloor>u * 5 - 1 / 1000000\<rfloor> 0 4"

definition main :: "uConfig \<Rightarrow> vec4 \<Rightarrow> vec2 \<Rightarrow> vec4" where
  "main uniforms texel fTexcoord =
     (case (cursorPos uniforms, texel) of ((pos_x, pos_y, pos_z, pos_w), (r, g, b, a)) \<Rightarrow>
        let pixel' =
          (if cursorVisible uniforms \<and> snd fTexcoord \<ge> 1 / 2 \<and> snd fTexcoord \<le> 1
           then
             (if inside (cursorPos uniforms) fTexcoord
              then
                (let w = max (pos_z - pos_x) (1 / 1000000);
                     h = max (pos_w - pos_y) (1 / 1000000);
                     u = clamp ((fst fTexcoord - pos_x) / w) 0 1;
                     v = clamp ((snd fTexcoord - pos_y) / h) 0 1;
                     bx = bucket u;
                     by' = bucket v
                 in case frag_cell bx by' of
                      White \<Rightarrow> (1, 1, 1, a)
                    | Black \<Rightarrow> (0, 0, 0, a)
                    | Untouched \<Rightarrow> (r, g, b, a))
              else (r, g, b, a))
           else (r, g, b, a))
        in case pixel' of (r', g', b', a') \<Rightarrow> (b', g', r', 1))"

section \<open>Auxiliary notions and sample inputs\<close>

text \<open>The colour written for a classified cell, and the pixel map after a run of in-bounds calls.\<close>

definition paint_colour :: "Paint \<Rightarrow> 32 word option" where
  "paint_colour k =
     (case k of White \<Rightarrow> Some 0xFFFFFFFF | Black \<Rightarrow> Some 0xFF000000 | Untouched \<Rightarrow> None)"

fun apply_calls :: "(uvec2 \<Rightarrow> 32 word) \<Rightarrow> (int \<times> int \<times> 32 word) list \<Rightarrow> (uvec2 \<Rightarrow> 32 word)" where
  "apply_calls f [] = f"
| "apply_calls f ((x, y, c) # calls) = apply_calls (f((nat x, nat y) := c)) calls"

definition in_bounds :: "uvec2 \<Rightarrow> int \<times> int \<times> 32 word \<Rightarrow> bool" where
  "in_bounds sz call \<longleftrightarrow>
     0 \<le> fst call \<and> fst call < int (fst sz) \<and> 0 \<le> fst (snd call) \<and> fst (snd call) < int (snd sz)"

text \<open>
  A large-screen layout with the bottom screen magnified twice below the top screen, a
  hybrid layout, and a top-only layout, with inputs to run the model on.
\<close>

definition example_layout :: ScreenLayoutData where
  "example_layout =
     \<lparr>Layout = LargescreenBottom, BufferSize = (512, 576), HybridRatio = 2,
      HybridSmallScreenLayout = Both,
      GetTopScreenTranslation = (128, 0), GetBottomScreenTranslation = (0, 192),
      GetHybridScreenTranslation = (0, 0),
      GetBottomScreenMatrix = (\<lambda>p. (2 * fst p, 2 * snd p + 192))\<rparr>"

definition example_hybrid :: "ScreenLayout \<Rightarrow> HybridSideScreenDisplay \<Rightarrow> ScreenLayoutData" where
  "example_hybrid layout small =
     \<lparr>Layout = layout, BufferSize = (768, 384), HybridRatio = 2,
      HybridSmallScreenLayout = small,
      GetTopScreenTranslation = (512, 0), GetBottomScreenTranslation = (512, 192),
      GetHybridScreenTranslation = (0, 0),
      GetBottomScreenMatrix = (\<lambda>p. (fst p + 512, snd p + 192))\<rparr>"

definition example_top_only :: ScreenLayoutData where
  "example_top_only =
     \<lparr>Layout = TopOnly, BufferSize = (256, 192), HybridRatio = 2,
      HybridSmallScreenLayout = Both,
      GetTopScreenTranslation = (0, 0), GetBottomScreenTranslation = (0, 192),
      GetHybridScreenTranslation = (0, 0),
      GetBottomScreenMatrix = (\<lambda>p. (fst p, snd p + 192))\<rparr>"

definition example_input :: "ivec2 \<Rightarrow> InputState" where
  "example_input touch = \<lparr>TouchPosition = touch, CursorVisible = True\<rparr>"

definition example_config :: CoreConfig where
  "example_config = \<lparr>CursorSize = 2, ConfigScreenFilter = Nearest\<rparr>"

definition example_config_largest :: CoreConfig where
  "example_config_largest = \<lparr>CursorSize = 2147483647, ConfigScreenFilter = Nearest\<rparr>"

definition example_state :: "uvec2 \<Rightarrow> SoftwareRenderState" where
  "example_state sz =
     \<lparr>buffer = \<lparr>Size = sz, pixel = (\<lambda>p. 0x12345678)\<rparr>,
      hybridBuffer = \<lparr>Size = (1, 1), pixel = (\<lambda>p. 0)\<rparr>,
      hybridScaler = \<lparr>scaler_type = SCALER_TYPE_POINT, out_size = (1, 1)\<rparr>\<rparr>"

definition example_externals :: Externals where
  "example_externals =
     \<lparr>LayoutSupportsDirectCopy = (\<lambda>layout. layout = TopOnly \<or> layout = BottomOnly),
      ScalerScale = (\<lambda>scaler source. source)\<rparr>"

definition example_nds :: NDS where
  "example_nds =
     \<lparr>TopFramebuffer = (\<lambda>i. 0xFF0000FF), BottomFramebuffer = (\<lambda>i. 0xFF00FF00),
      IsLidClosed = False\<rparr>"

text \<open>
  In a hybrid layout: \<open>hybridBuffer\<close> after the primary screen has been scaled into it,
  and \<open>buffer\<close> after it has been cleared and has received that magnified copy.
\<close>

definition scaled_primary :: "Externals \<Rightarrow> SourceImage \<Rightarrow> SourceImage \<Rightarrow> ScreenLayoutData \<Rightarrow> SoftwareRenderState \<Rightarrow> PixelBuffer" where
  "scaled_primary ext topBuffer bottomBuffer screenLayout st =
     load_data (hybridBuffer st)
       (ScalerScale ext (hybridScaler st)
          (screen_data topBuffer bottomBuffer (hybrid_primary (Layout screenLayout))))"

definition magnified_copy :: "Externals \<Rightarrow> SourceImage \<Rightarrow> SourceImage \<Rightarrow> ScreenLayoutData \<Rightarrow> SoftwareRenderState \<Rightarrow> PixelBuffer" where
  "magnified_copy ext topBuffer bottomBuffer screenLayout st =
     CopyRows (Clear (buffer st))
       (buffer_data (scaled_primary ext topBuffer bottomBuffer screenLayout st))
       (GetHybridScreenTranslation screenLayout)
       (scaled_size NDS_SCREEN_SIZE (HybridRatio screenLayout))"

text \<open>
  What the host and the profiler receive at a pixel from a call of \<open>Render\<close>, and
  sample uniforms for the shader.
\<close>

definition delivered_pixel :: "error + RenderOutput \<Rightarrow> uvec2 \<Rightarrow> 32 word option" where
  "delivered_pixel result p =
     (case result of Inl e \<Rightarrow> None | Inr out \<Rightarrow> Some (pixel (video_refresh out) p))"

definition profiler_pixel :: "error + RenderOutput \<Rightarrow> uvec2 \<Rightarrow> 32 word option" where
  "profiler_pixel result p =
     (case result of
        Inl e \<Rightarrow> None
      | Inr out \<Rightarrow> (case FrameImage out of None \<Rightarrow> None | Some frame \<Rightarrow> Some (frame p)))"

definition example_uniforms :: uConfig where
  "example_uniforms =
     \<lparr>uScreenSize = (256, 384), u3DScale = 1, uFilterMode = 0,
      cursorPos = (1 / 4, 3 / 5, 1 / 2, 4 / 5), cursorVisible = True\<rparr>"

section \<open>Properties\<close>

subsection \<open>Floor division\<close>

lemma floor_div_eq_div:
  assumes "0 < b"
  shows "floor_div a b = a div b"
proof (cases "0 \<le> a")
  case True
  with assms show ?thesis
    by (simp add: floor_div_def Let_def signed_divide_int_def signed_modulo_int_def sgn_if)
next
  case False
  then have neg: "a < 0" by simp
  have q: "a sdiv b = - ((- a) div b)"
    using neg assms by (simp add: signed_divide_int_def sgn_if)
  have r: "a smod b = - ((- a) mod b)"
    using neg assms by (simp add: signed_modulo_int_def sgn_if)
  show ?thesis
  proof (cases "(- a) mod b = 0")
    case True
    then have "b dvd a" by (simp add: mod_eq_0_iff_dvd)
    then have "(- a) div b = - (a div b)" by (simp add: dvd_neg_div)
    with True neg q r show ?thesis by (simp add: floor_div_def Let_def)
  next
    case False
    then have "\<not> b dvd a" by (simp add: mod_eq_0_iff_dvd)
    then have "(- a) div b = - (a div b) - 1"
      using assms by (simp add: zdiv_zminus1_eq_if mod_eq_0_iff_dvd)
    with False neg q r show ?thesis by (simp add: floor_div_def Let_def)
  qed
qed

lemma div_bounds:
  fixes d s :: int
  assumes "0 < s"
  shows "d div s * s \<le> d" and "d < (d div s + 1) * s"
proof -
  have split: "d = d div s * s + d mod s" by simp
  have "0 \<le> d mod s" "d mod s < s"
    using assms by simp_all
  with split have "d div s * s \<le> d" "d < d div s * s + s"
    by linarith+
  then show "d div s * s \<le> d" and "d < (d div s + 1) * s"
    by (simp_all add: algebra_simps)
qed

text \<open>
  C3. The helper is true floor division: for every integer \<open>a\<close> and every positive
  \<open>b\<close>, \<open>floor_div a b * b \<le> a < (floor_div a b + 1) * b\<close>; and
  \<open>floor_div (-1) 3 = -1\<close>, \<open>floor_div (-4) 3 = -2\<close>.
\<close>

theorem floor_div_is_floor:
  "(0 < b \<longrightarrow> floor_div a b * b \<le> a \<and> a < (floor_div a b + 1) * b)
   \<and> floor_div (- 1) 3 = - 1 \<and> floor_div (- 4) 3 = - 2"
proof -
  have "floor_div a b * b \<le> a \<and> a < (floor_div a b + 1) * b" if "0 < b"
  proof -
    have "a div b * b \<le> a \<and> a < (a div b + 1) * b"
      using div_bounds [OF that, of a] by simp
    then show ?thesis by (simp add: floor_div_eq_div that)
  qed
  moreover have "floor_div (- 1) 3 = - 1" "floor_div (- 4) 3 = - 2"
    by (simp_all add: floor_div_def Let_def signed_divide_int_def signed_modulo_int_def)
  ultimately show ?thesis by blast
qed

theorem floor_div_is_floor_witness:
  "(0::int) < 3 \<and> floor_div (- 7) 3 * 3 \<le> - 7 \<and> - 7 < (floor_div (- 7) 3 + 1) * 3
   \<and> floor_div (- 7) 3 = - 3"
  using floor_div_is_floor [of 3 "- 7"]
  by (simp add: floor_div_def Let_def signed_divide_int_def signed_modulo_int_def)

text \<open>
  For a positive divisor nothing overflows in the 32-bit lambda: it computes what the
  lambda on unbounded integers computes.
\<close>

lemma sint32_range: "- 2147483648 \<le> sint (a :: 32 word) \<and> sint a < 2147483648"
  using sint_ge [of a] sint_lt [of a] by simp

lemma sint32_of_int:
  assumes "- 2147483648 \<le> k" "k < 2147483648"
  shows "sint (word_of_int k :: 32 word) = k"
  using assms by (simp add: sint_sbintrunc' signed_take_bit_int_eq_self)

lemma floor_div32_sint:
  assumes "0 <s b"
  shows "sint (floor_div32 a b) = floor_div (sint a) (sint b)"
proof -
  define A where "A = sint a"
  define B where "B = sint b"
  have B: "0 < B" "B < 2147483648"
    using assms sint32_range [of b] by (simp_all add: B_def word_sless_alt)
  have A: "- 2147483648 \<le> A" "A < 2147483648"
    using sint32_range [of a] by (simp_all add: A_def)
  have "\<bar>A\<bar> div B \<le> \<bar>A\<bar> div 1"
    using B by (intro zdiv_mono2) simp_all
  then have absdiv: "\<bar>A\<bar> div B \<le> \<bar>A\<bar>"
    by simp
  have absdiv0: "0 \<le> \<bar>A\<bar> div B"
    using B by (simp add: pos_imp_zdiv_nonneg_iff)
  have Q: "- 2147483648 \<le> A sdiv B" "A sdiv B < 2147483648"
    using A B absdiv absdiv0 by (auto simp: signed_divide_int_def sgn_if)
  have absmod: "0 \<le> \<bar>A\<bar> mod B" "\<bar>A\<bar> mod B < B"
    using B by simp_all
  have R: "- 2147483648 \<le> A smod B" "A smod B < 2147483648"
    using A B absmod by (auto simp: signed_modulo_int_def sgn_if)
  have q: "sint (word_of_int (A sdiv B) :: 32 word) = A sdiv B"
    using Q by (rule sint32_of_int)
  have r: "sint (word_of_int (A smod B) :: 32 word) = A smod B"
    using R by (rule sint32_of_int)
  have r0: "(word_of_int (A smod B) :: 32 word) \<noteq> 0 \<longleftrightarrow> A smod B \<noteq> 0"
  proof -
    have "A smod B = 0" if "(word_of_int (A smod B) :: 32 word) = 0"
      using r that by simp
    moreover have "(word_of_int (A smod B) :: 32 word) = 0" if "A smod B = 0"
      using that by simp
    ultimately show ?thesis by blast
  qed
  have neg: "a <s 0 \<longleftrightarrow> A < 0"
    by (simp add: word_sless_alt A_def)
  show ?thesis
  proof (cases "A smod B \<noteq> 0 \<and> A < 0")
    case False
    then show ?thesis
      using q r0 neg by (auto simp: floor_div32_def floor_div_def Let_def A_def [symmetric] B_def [symmetric])
  next
    case True
    then have "B \<noteq> 1" by (auto simp: signed_modulo_int_def)
    with B have B2: "2 \<le> B" by simp
    have "\<bar>A\<bar> div B \<le> \<bar>A\<bar> div 2"
      using B2 by (intro zdiv_mono2) auto
    also have "\<dots> \<le> 1073741824" using A by auto
    finally have "- 1073741824 \<le> A sdiv B"
      using True B by (simp add: signed_divide_int_def sgn_if)
    then have range: "- 2147483648 \<le> A sdiv B - 1" "A sdiv B - 1 < 2147483648"
      using Q by simp_all
    have "sint (word_of_int (A sdiv B) - 1 :: 32 word) = sint (word_of_int (A sdiv B - 1) :: 32 word)"
      by simp
    also have "\<dots> = A sdiv B - 1" using range by (rule sint32_of_int)
    finally show ?thesis
      using True r0 neg by (simp add: floor_div32_def floor_div_def Let_def A_def [symmetric] B_def [symmetric])
  qed
qed

subsection \<open>32-bit values\<close>

lemma i32_range: "- 2147483648 \<le> i32 k" "i32 k < 2147483648"
proof -
  have "0 \<le> (k + 2147483648) mod 4294967296" "(k + 2147483648) mod 4294967296 < 4294967296"
    by simp_all
  then show "- 2147483648 \<le> i32 k" "i32 k < 2147483648"
    by (simp_all add: i32_def)
qed

lemma i32_id:
  assumes "- 2147483648 \<le> k" "k < 2147483648"
  shows "i32 k = k"
proof -
  have "(k + 2147483648) mod 4294967296 = k + 2147483648"
    using assms by (intro mod_pos_pos_trivial) simp_all
  then show ?thesis by (simp add: i32_def)
qed

lemma i32_le_self:
  assumes "0 \<le> k"
  shows "i32 k \<le> k"
proof -
  have "(k + 2147483648) mod 4294967296 \<le> k + 2147483648"
    using assms by (intro zmod_le_nonneg_dividend) simp
  then show ?thesis by (simp add: i32_def)
qed

lemma i32_min_large:
  assumes "0 \<le> k" "i32 k = - 2147483648"
  shows "2147483648 \<le> k"
proof (rule ccontr)
  assume "\<not> 2147483648 \<le> k"
  with assms(1) have "i32 k = k" by (intro i32_id) simp_all
  with assms show False by simp
qed

lemma u32_range: "0 \<le> u32 k" "u32 k < 4294967296"
  by (simp_all add: u32_def)

lemma u32_id:
  assumes "0 \<le> k" "k < 4294967296"
  shows "u32 k = k"
  using assms by (simp add: u32_def)

subsection \<open>The double loop of \<open>DrawCursor\<close>\<close>

lemma cursor_row_upto:
  "cursor_row cx cy scale ex y x = concat (map (\<lambda>x. cursor_px cx cy scale x y) [x..ex])"
proof (induction cx cy scale ex y x rule: cursor_row.induct)
  case (1 cx cy scale ex y x)
  show ?case
  proof (cases "x \<le> ex")
    case True
    then have "[x..ex] = x # [x + 1..ex]" by (simp add: upto_rec1)
    with True 1 show ?thesis by (simp add: cursor_row.simps [of cx cy scale ex y x])
  next
    case False
    then show ?thesis by (simp add: cursor_row.simps [of cx cy scale ex y x])
  qed
qed

lemma cursor_rows_upto:
  "cursor_rows cx cy scale sx ex ey y =
     concat (map (\<lambda>y. concat (map (\<lambda>x. cursor_px cx cy scale x y) [sx..ex])) [y..ey])"
proof (induction cx cy scale sx ex ey y rule: cursor_rows.induct)
  case (1 cx cy scale sx ex ey y)
  show ?case
  proof (cases "y \<le> ey")
    case True
    then have "[y..ey] = y # [y + 1..ey]" by (simp add: upto_rec1)
    with True 1 show ?thesis
      by (simp add: cursor_rows.simps [of cx cy scale sx ex ey y] cursor_row_upto)
  next
    case False
    then show ?thesis by (simp add: cursor_rows.simps [of cx cy scale sx ex ey y])
  qed
qed

lemma set_cursor_px:
  "set (cursor_px cx cy scale x y) =
     {(x', y', c). x' = x \<and> y' = y \<and>
        paint_colour (cpu_cell (floor_div (x - cx) scale) (floor_div (y - cy) scale)) = Some c}"
  by (auto simp: cursor_px_def Let_def paint_colour_def split: Paint.splits)

lemma set_cursor_calls:
  "set (cursor_calls W H cx cy scale) =
     {(x, y, c).
        max 0 (i32 (cx - i32 (2 * scale))) \<le> x
        \<and> x \<le> min (i32 (W - 1)) (i32 (i32 (cx + i32 (2 * scale)) + i32 (scale - 1)))
        \<and> max 0 (i32 (cy - i32 (2 * scale))) \<le> y
        \<and> y \<le> min (i32 (H - 1)) (i32 (i32 (cy + i32 (2 * scale)) + i32 (scale - 1)))
        \<and> paint_colour (cpu_cell (floor_div (x - cx) scale) (floor_div (y - cy) scale)) = Some c}"
  unfolding cursor_calls_def Let_def cursor_rows_upto
  by (auto simp: set_cursor_px)

subsection \<open>Cells and regions\<close>

















subsection \<open>Running the calls of \<open>DrawCursor\<close>\<close>

lemma set_px_all_in_bounds:
  assumes "\<forall>call\<in>set calls. in_bounds (Size buf) call"
  shows "set_px_all buf calls = Inr (buf\<lparr>pixel := apply_calls (pixel buf) calls\<rparr>)"
  using assms
proof (induction calls arbitrary: buf)
  case Nil
  show ?case by simp
next
  case (Cons call calls)
  obtain x y c where call: "call = (x, y, c)" by (cases call) auto
  from Cons.prems have ok: "0 \<le> x" "x < int (fst (Size buf))" "0 \<le> y" "y < int (snd (Size buf))"
    by (simp_all add: call in_bounds_def)
  let ?buf' = "buf\<lparr>pixel := (pixel buf)((nat x, nat y) := c)\<rparr>"
  have step: "set_px buf x y c = Inr ?buf'"
    using ok by (simp add: set_px_def)
  have "\<forall>call\<in>set calls. in_bounds (Size ?buf') call"
    using Cons.prems by simp
  from Cons.IH [OF this] show ?case
    by (simp add: call step fun_upd_def)
qed

lemma set_px_all_fails:
  assumes "call \<in> set calls" and "\<not> in_bounds (Size buf) call"
  shows "set_px_all buf calls = Inl OutOfBounds"
  using assms
proof (induction calls arbitrary: buf)
  case Nil
  then show ?case by simp
next
  case (Cons a calls)
  obtain x y c where a: "a = (x, y, c)" by (cases a) auto
  show ?case
  proof (cases "in_bounds (Size buf) a")
    case False
    then show ?thesis by (auto simp: a set_px_def in_bounds_def)
  next
    case True
    then have step: "set_px buf x y c = Inr (buf\<lparr>pixel := (pixel buf)((nat x, nat y) := c)\<rparr>)"
      by (auto simp: a set_px_def in_bounds_def)
    from True Cons.prems have "call \<in> set calls" by auto
    from Cons.IH [OF this, of "buf\<lparr>pixel := (pixel buf)((nat x, nat y) := c)\<rparr>"] Cons.prems(2)
    show ?thesis by (simp add: a step)
  qed
qed




lemma i32_size_bound:
  assumes "0 \<le> x" "x \<le> i32 (i32 (int W) - 1)"
  shows "x < int W"
proof (cases "i32 (int W) = - 2147483648")
  case True
  then have "2147483648 \<le> int W" by (intro i32_min_large) simp_all
  moreover have "x < 2147483648" using assms(2) i32_range(2) [of "i32 (int W) - 1"] by simp
  ultimately show ?thesis by simp
next
  case False
  with i32_range [of "int W"] have "i32 (i32 (int W) - 1) = i32 (int W) - 1"
    by (intro i32_id) simp_all
  with assms have "x < i32 (int W)" by simp
  also have "\<dots> \<le> int W" by (intro i32_le_self) simp
  finally show ?thesis .
qed

lemma cursor_calls_in_bounds:
  assumes "call \<in> set (cursor_calls (i32 (int W)) (i32 (int H)) cx cy scale)"
  shows "in_bounds (W, H) call"
proof -
  obtain x y c where call: "call = (x, y, c)" by (cases call) auto
  from assms have "0 \<le> x \<and> x \<le> i32 (i32 (int W) - 1) \<and> 0 \<le> y \<and> y \<le> i32 (i32 (int H) - 1)"
    unfolding call set_cursor_calls by simp
  then have "0 \<le> x \<and> x < int W \<and> 0 \<le> y \<and> y < int H"
    using i32_size_bound [of x W] i32_size_bound [of y H] by simp
  then show ?thesis by (simp add: call in_bounds_def)
qed

lemma DrawCursor_calls_in_bounds:
  assumes "call \<in> set (DrawCursor_calls input config screenLayout sz)"
  shows "in_bounds sz call"
proof -
  from assms have "call \<in> set (cursor_calls (i32 (int (fst sz))) (i32 (int (snd sz)))
      (fst (cursor_center input config screenLayout sz))
      (snd (cursor_center input config screenLayout sz)) (i32 (cursor_scale screenLayout)))"
    by (simp add: DrawCursor_calls_def Let_def split: if_splits)
  then have "in_bounds (fst sz, snd sz) call" by (rule cursor_calls_in_bounds)
  then show ?thesis by simp
qed

lemma DrawCursor_eq:
  "DrawCursor input config screenLayout st =
     Inr (st\<lparr>buffer := (buffer st)\<lparr>pixel := apply_calls (pixel (buffer st))
       (DrawCursor_calls input config screenLayout (Size (buffer st)))\<rparr>\<rparr>)"
proof -
  have "\<forall>call\<in>set (DrawCursor_calls input config screenLayout (Size (buffer st))).
          in_bounds (Size (buffer st)) call"
    by (blast intro: DrawCursor_calls_in_bounds)
  from set_px_all_in_bounds [OF this] show ?thesis
    by (simp add: DrawCursor_def)
qed



lemma cursor_center_range:
  "0 \<le> fst (cursor_center input config screenLayout sz)
   \<and> fst (cursor_center input config screenLayout sz) < 2147483648
   \<and> 0 \<le> snd (cursor_center input config screenLayout sz)
   \<and> snd (cursor_center input config screenLayout sz) < 2147483648"
proof -
  have half: "0 \<le> u32 k div 2" "u32 k div 2 < 2147483648" for k
    using u32_range [of k] by (simp_all add: pos_imp_zdiv_nonneg_iff)
  have "0 \<le> i32 (u32 k div 2) \<and> i32 (u32 k div 2) < 2147483648" for k
  proof -
    have "- 2147483648 \<le> u32 k div 2"
      using half(1) [of k] by linarith
    then have "i32 (u32 k div 2) = u32 k div 2"
      using half(2) [of k] by (rule i32_id)
    with half [of k] show ?thesis by simp
  qed
  then show ?thesis
    by (simp add: cursor_center_def Let_def)
qed

text \<open>
  When the \<open>int\<close> width of the buffer is the least \<open>int\<close>, both clamps give it, and
  the unsigned sum of \<open>start\<close> and \<open>end\<close> wraps to 0.
\<close>

lemma axis_center_zero:
  assumes "W = - 2147483648"
  shows "i32 (u32 (u32 (clamp a 0 W) + u32 (clamp b 0 W)) div 2) = 0"
  using assms by (simp add: clamp_def u32_def i32_def)

lemma u32_i32: "u32 (i32 k) = u32 k"
proof -
  have "(k + 2147483648) mod 4294967296 - 2147483648
      = k - 4294967296 * ((k + 2147483648) div 4294967296)"
    by (simp add: minus_div_mult_eq_mod [symmetric] algebra_simps)
  then have "i32 k = k + 4294967296 * (- ((k + 2147483648) div 4294967296))"
    by (simp add: i32_def)
  then have "i32 k mod 4294967296
      = (k + 4294967296 * (- ((k + 2147483648) div 4294967296))) mod 4294967296"
    by (rule arg_cong)
  also have "\<dots> = k mod 4294967296"
    by (rule mod_mult_self2)
  finally show ?thesis
    by (simp only: u32_def)
qed

lemma three_scale_not_max:
  assumes "1 \<le> s" "s < 2147483648"
  shows "i32 (i32 (0 + i32 (2 * s)) + i32 (s - 1)) \<noteq> 2147483647"
proof
  assume eq: "i32 (i32 (0 + i32 (2 * s)) + i32 (s - 1)) = 2147483647"
  have s1: "i32 (s - 1) = s - 1"
    using assms by (intro i32_id) simp_all
  have "u32 (i32 (i32 (2 * s)) + (s - 1)) = u32 (i32 (i32 (i32 (2 * s)) + (s - 1)))"
    by (simp only: u32_i32)
  also have "\<dots> = u32 2147483647"
    using eq by (simp add: s1)
  finally have "u32 (i32 (i32 (2 * s)) + (s - 1)) = 2147483647"
    by (simp add: u32_def)
  moreover have "u32 (i32 (i32 (2 * s)) + (s - 1)) = u32 (u32 (i32 (i32 (2 * s))) + (s - 1))"
    by (simp add: u32_def mod_add_left_eq)
  moreover have "u32 (i32 (i32 (2 * s))) = u32 (2 * s)"
    by (simp only: u32_i32)
  ultimately have "u32 (u32 (2 * s) + (s - 1)) = 2147483647"
    by simp
  then have "(3 * s - 1) mod 4294967296 = 2147483647"
    by (simp add: u32_def mod_add_left_eq)
  then have "3 * s - 1 = 4294967296 * ((3 * s - 1) div 4294967296) + 2147483647"
    using mult_div_mod_eq [of 4294967296 "3 * s - 1"] by linarith
  moreover have "(3 * s - 1) div 4294967296 = 0 \<or> (3 * s - 1) div 4294967296 = 1"
  proof -
    have "0 \<le> (3 * s - 1) div 4294967296"
      using assms by (simp add: pos_imp_zdiv_nonneg_iff)
    moreover have "(3 * s - 1) div 4294967296 < 2"
      using assms by (simp add: div_less_iff_less_mult) 
    ultimately show ?thesis by linarith
  qed
  ultimately have "3 * s = 2147483648 \<or> 3 * s = 6442450944"
    by auto
  with assms show False by presburger
qed

lemma axis_bound_below_max:
  assumes s: "1 \<le> s" "s < 2147483648"
    and W: "- 2147483648 \<le> W" "W < 2147483648"
    and centre: "W = - 2147483648 \<Longrightarrow> c = 0"
  shows "min (i32 (W - 1)) (i32 (i32 (c + i32 (2 * s)) + i32 (s - 1))) < 2147483647"
proof (cases "W = - 2147483648")
  case True
  then have "c = 0" by (rule centre)
  then have "i32 (i32 (c + i32 (2 * s)) + i32 (s - 1)) \<noteq> 2147483647"
    using three_scale_not_max [OF s] by simp
  moreover have "i32 (i32 (c + i32 (2 * s)) + i32 (s - 1)) < 2147483648"
    by (rule i32_range)
  ultimately show ?thesis by simp
next
  case False
  with W have "i32 (W - 1) = W - 1"
    by (intro i32_id) simp_all
  with W show ?thesis by simp
qed

text \<open>
  With a scale of at least 1, the upper bounds \<open>ex\<close> and \<open>ey\<close> of the loops of
  \<open>DrawCursor\<close> are below the largest \<open>int\<close>: \<open>++x\<close> and \<open>++y\<close> never overflow.
\<close>

lemma cursor_bounds_below_max:
  assumes "1 \<le> i32 (cursor_scale screenLayout)"
  shows "min (i32 (i32 (int (fst sz)) - 1))
           (i32 (i32 (fst (cursor_center input config screenLayout sz)
                      + i32 (2 * i32 (cursor_scale screenLayout)))
                 + i32 (i32 (cursor_scale screenLayout) - 1))) < 2147483647
         \<and> min (i32 (i32 (int (snd sz)) - 1))
           (i32 (i32 (snd (cursor_center input config screenLayout sz)
                      + i32 (2 * i32 (cursor_scale screenLayout)))
                 + i32 (i32 (cursor_scale screenLayout) - 1))) < 2147483647"
proof -
  have cx: "fst (cursor_center input config screenLayout sz) = 0"
    if "i32 (int (fst sz)) = - 2147483648"
    by (simp add: cursor_center_def Let_def axis_center_zero [OF that])
  have cy: "snd (cursor_center input config screenLayout sz) = 0"
    if "i32 (int (snd sz)) = - 2147483648"
    by (simp add: cursor_center_def Let_def axis_center_zero [OF that])
  show ?thesis
    using axis_bound_below_max [OF assms i32_range(2) i32_range, of "int (fst sz)" _, OF cx]
          axis_bound_below_max [OF assms i32_range(2) i32_range, of "int (snd sz)" _, OF cy]
    by simp
qed

subsection \<open>The writes of \<open>DrawCursor\<close> stay inside the buffer\<close>

text \<open>
  With the largest cursor size the sum \<open>transformedTouch + cursorSize\<close> wraps around,
  \<open>end\<close> is clamped to 0 as \<open>start\<close> is, and the centre is the origin.
\<close>

lemma example_center_wrapped:
  "cursor_center (example_input (100, 50)) example_config_largest example_layout (512, 576)
     = (0, 0)"
proof -
  have wrap: "i32 2147483847 = - 2147483449" "i32 2147483939 = - 2147483357"
    by (simp_all add: i32_def)
  show ?thesis
    by (simp add: cursor_center_def example_input_def example_config_largest_def
        example_layout_def Let_def clamp_def NDS_SCREEN_WIDTH_def NDS_SCREEN_HEIGHT_def
        i32_id u32_id wrap)
qed

text \<open>
  C8. Whatever the touch point, the cursor size, the layout and the size of the buffer, with
  a scale (the \<open>int\<close> \<open>scale\<close>) of at least 1, and with every operation of
  \<open>DrawCursor\<close> wrapping around as the 32-bit \<open>int\<close> does: every \<open>set_px\<close> call of
  \<open>DrawCursor\<close> has \<open>0 \<le> x \<le> W - 1\<close> and \<open>0 \<le> y \<le> H - 1\<close>, and
  \<open>DrawCursor\<close> ends without an access out of bounds.
\<close>

theorem DrawCursor_writes_in_bounds:
  assumes "1 \<le> i32 (cursor_scale screenLayout)"
  shows "(\<forall>(x, y, c)\<in>set (DrawCursor_calls input config screenLayout (Size (buffer st))).
            0 \<le> x \<and> x \<le> int (fst (Size (buffer st))) - 1
            \<and> 0 \<le> y \<and> y \<le> int (snd (Size (buffer st))) - 1)
         \<and> (\<exists>st'. DrawCursor input config screenLayout st = Inr st')"
proof -
  have "0 \<le> x \<and> x \<le> int (fst (Size (buffer st))) - 1
        \<and> 0 \<le> y \<and> y \<le> int (snd (Size (buffer st))) - 1"
    if "(x, y, c) \<in> set (DrawCursor_calls input config screenLayout (Size (buffer st)))" for x y c
    using DrawCursor_calls_in_bounds [OF that] by (simp add: in_bounds_def)
  then show ?thesis
    by (auto simp: DrawCursor_eq)
qed

theorem DrawCursor_writes_in_bounds_witness:
  "1 \<le> i32 (cursor_scale example_layout)
   \<and> CursorSize example_config_largest = 2147483647
   \<and> cursor_center (example_input (100, 50)) example_config_largest example_layout
        (Size (buffer (example_state (512, 576)))) = (0, 0)
   \<and> (\<exists>st'. DrawCursor (example_input (100, 50)) example_config_largest example_layout
               (example_state (512, 576)) = Inr st')
   \<and> (0, 0, 0xFFFFFFFF) \<in> set (DrawCursor_calls (example_input (100, 50))
          example_config_largest example_layout (Size (buffer (example_state (512, 576)))))
   \<and> (- 1, 0, 0xFFFFFFFF) \<notin> set (DrawCursor_calls (example_input (100, 50))
          example_config_largest example_layout (Size (buffer (example_state (512, 576)))))"
proof -
  have sc: "i32 (cursor_scale example_layout) = 2"
    by (simp add: cursor_scale_def example_layout_def i32_id)
  then have s: "1 \<le> i32 (cursor_scale example_layout)"
    by simp
  have sz: "Size (buffer (example_state (512, 576))) = (512, 576)"
    by (simp add: example_state_def)
  have l: "Layout example_layout \<noteq> TopOnly"
    by (simp add: example_layout_def)
  have calls: "DrawCursor_calls (example_input (100, 50)) example_config_largest example_layout
      (512, 576) = cursor_calls 512 576 0 0 2"
    using l by (simp add: DrawCursor_calls_def Let_def example_center_wrapped sc i32_id)
  have bounds: "i32 (0 - i32 (2 * 2)) = - 4" "i32 (512 - 1) = 511" "i32 (576 - 1) = 575"
    "i32 (i32 (0 + i32 (2 * 2)) + i32 (2 - 1)) = 5"
    by (simp_all add: i32_id)
  have cell: "cpu_cell (floor_div 0 2) (floor_div 0 2) = White"
    by (simp add: cpu_cell_def floor_div_def Let_def)
  have inside: "(0, 0, 0xFFFFFFFF) \<in> set (cursor_calls 512 576 0 0 2)"
    unfolding set_cursor_calls bounds by (simp add: cell paint_colour_def)
  have outside: "(- 1, 0, 0xFFFFFFFF) \<notin> set (cursor_calls 512 576 0 0 2)"
    unfolding set_cursor_calls bounds by simp
  have c: "cursor_center (example_input (100, 50)) example_config_largest example_layout
        (Size (buffer (example_state (512, 576)))) = (0, 0)"
    unfolding sz by (rule example_center_wrapped)
  have "\<exists>st'. DrawCursor (example_input (100, 50)) example_config_largest example_layout
               (example_state (512, 576)) = Inr st'"
    using DrawCursor_writes_in_bounds [OF s, of "example_input (100, 50)" example_config_largest
        "example_state (512, 576)"]
    by blast
  moreover have "CursorSize example_config_largest = 2147483647"
    by (simp add: example_config_largest_def)
  ultimately show ?thesis
    using s c inside outside by (simp add: sz calls)
qed

subsection \<open>\<open>DrawCursor\<close> under \<open>TopOnly\<close>\<close>

text \<open>
  C10. With the layout \<open>TopOnly\<close>, \<open>DrawCursor\<close> makes no \<open>set_px\<close> call and
  returns the state it was given, every pixel of the buffer unchanged; nothing is asked of
  the cursor's visibility or of the lid, so this holds when the cursor is visible and the
  lid open.
\<close>

theorem DrawCursor_TopOnly_untouched:
  assumes "Layout screenLayout = TopOnly"
  shows "DrawCursor_calls input config screenLayout (Size (buffer st)) = []
         \<and> DrawCursor input config screenLayout st = Inr st"
  using assms by (simp add: DrawCursor_def DrawCursor_calls_def)

theorem DrawCursor_TopOnly_untouched_witness:
  "Layout example_top_only = TopOnly
   \<and> CursorVisible (example_input (10, 10))
   \<and> DrawCursor_calls (example_input (10, 10)) example_config example_top_only
        (Size (buffer (example_state (256, 192)))) = []
   \<and> DrawCursor (example_input (10, 10)) example_config example_top_only
        (example_state (256, 192)) = Inr (example_state (256, 192))"
proof -
  have l: "Layout example_top_only = TopOnly"
    by (simp add: example_top_only_def)
  from DrawCursor_TopOnly_untouched [OF l, of "example_input (10, 10)" example_config
      "example_state (256, 192)"] l
  show ?thesis by (simp add: example_input_def)
qed

subsection \<open>The footprint of the cursor\<close>





subsection \<open>The side screens of a hybrid layout\<close>

text \<open>
  C4. In a hybrid layout (\<open>HybridTop\<close>, \<open>HybridBottom\<close> and the flipped ones),
  \<open>CombineScreens\<close> clears, scales the primary screen and copies it magnified, and then:
  with the side-screen mode \<open>Both\<close> it copies both screens un-magnified at their
  translations, the top screen first; with \<open>FocusedOnly\<close> it copies exactly one, the
  bottom screen when the primary is the top screen and the top screen when the primary is
  the bottom screen. This is said of the calls it issues and of the state it returns.
\<close>

theorem hybrid_side_screens:
  assumes "IsHybridLayout (Layout screenLayout)"
  shows "(HybridSmallScreenLayout screenLayout = Both \<longrightarrow>
            CombineScreens_calls ext screenLayout =
              [ClearCall,
               ScaleCall (hybrid_primary (Layout screenLayout)),
               CopyRowsCall HybridBuffer (GetHybridScreenTranslation screenLayout)
                 (scaled_size NDS_SCREEN_SIZE (HybridRatio screenLayout)),
               CopyRowsCall (ScreenBuffer Top) (GetTopScreenTranslation screenLayout)
                 NDS_SCREEN_SIZE,
               CopyRowsCall (ScreenBuffer Bottom) (GetBottomScreenTranslation screenLayout)
                 NDS_SCREEN_SIZE]
            \<and> CombineScreens ext topBuffer bottomBuffer screenLayout st =
                st\<lparr>hybridBuffer := scaled_primary ext topBuffer bottomBuffer screenLayout st,
                   buffer :=
                     CopyRows
                       (CopyRows (magnified_copy ext topBuffer bottomBuffer screenLayout st)
                          topBuffer (GetTopScreenTranslation screenLayout) NDS_SCREEN_SIZE)
                       bottomBuffer (GetBottomScreenTranslation screenLayout) NDS_SCREEN_SIZE\<rparr>)
         \<and> (HybridSmallScreenLayout screenLayout = FocusedOnly
              \<and> (Layout screenLayout = HybridTop \<or> Layout screenLayout = FlippedHybridTop) \<longrightarrow>
            CombineScreens_calls ext screenLayout =
              [ClearCall,
               ScaleCall Top,
               CopyRowsCall HybridBuffer (GetHybridScreenTranslation screenLayout)
                 (scaled_size NDS_SCREEN_SIZE (HybridRatio screenLayout)),
               CopyRowsCall (ScreenBuffer Bottom) (GetBottomScreenTranslation screenLayout)
                 NDS_SCREEN_SIZE]
            \<and> hybrid_primary (Layout screenLayout) = Top
            \<and> CombineScreens ext topBuffer bottomBuffer screenLayout st =
                st\<lparr>hybridBuffer := scaled_primary ext topBuffer bottomBuffer screenLayout st,
                   buffer :=
                     CopyRows (magnified_copy ext topBuffer bottomBuffer screenLayout st)
                       bottomBuffer (GetBottomScreenTranslation screenLayout) NDS_SCREEN_SIZE\<rparr>)
         \<and> (HybridSmallScreenLayout screenLayout = FocusedOnly
              \<and> (Layout screenLayout = HybridBottom \<or> Layout screenLayout = FlippedHybridBottom) \<longrightarrow>
            CombineScreens_calls ext screenLayout =
              [ClearCall,
               ScaleCall Bottom,
               CopyRowsCall HybridBuffer (GetHybridScreenTranslation screenLayout)
                 (scaled_size NDS_SCREEN_SIZE (HybridRatio screenLayout)),
               CopyRowsCall (ScreenBuffer Top) (GetTopScreenTranslation screenLayout)
                 NDS_SCREEN_SIZE]
            \<and> hybrid_primary (Layout screenLayout) = Bottom
            \<and> CombineScreens ext topBuffer bottomBuffer screenLayout st =
                st\<lparr>hybridBuffer := scaled_primary ext topBuffer bottomBuffer screenLayout st,
                   buffer :=
                     CopyRows (magnified_copy ext topBuffer bottomBuffer screenLayout st)
                       topBuffer (GetTopScreenTranslation screenLayout) NDS_SCREEN_SIZE\<rparr>)"
proof -
  have both: "CombineScreens_calls ext screenLayout =
      [ClearCall,
       ScaleCall (hybrid_primary (Layout screenLayout)),
       CopyRowsCall HybridBuffer (GetHybridScreenTranslation screenLayout)
         (scaled_size NDS_SCREEN_SIZE (HybridRatio screenLayout)),
       CopyRowsCall (ScreenBuffer Top) (GetTopScreenTranslation screenLayout) NDS_SCREEN_SIZE,
       CopyRowsCall (ScreenBuffer Bottom) (GetBottomScreenTranslation screenLayout)
         NDS_SCREEN_SIZE]"
    if "HybridSmallScreenLayout screenLayout = Both"
    using assms that by (simp add: CombineScreens_calls_def Let_def)
  have top_primary: "CombineScreens_calls ext screenLayout =
      [ClearCall,
       ScaleCall (hybrid_primary (Layout screenLayout)),
       CopyRowsCall HybridBuffer (GetHybridScreenTranslation screenLayout)
         (scaled_size NDS_SCREEN_SIZE (HybridRatio screenLayout)),
       CopyRowsCall (ScreenBuffer Bottom) (GetBottomScreenTranslation screenLayout)
         NDS_SCREEN_SIZE]"
    and is_top: "hybrid_primary (Layout screenLayout) = Top"
    if "HybridSmallScreenLayout screenLayout = FocusedOnly"
      "Layout screenLayout = HybridTop \<or> Layout screenLayout = FlippedHybridTop"
    using assms that by (auto simp: CombineScreens_calls_def Let_def hybrid_primary_def)
  have bottom_primary: "CombineScreens_calls ext screenLayout =
      [ClearCall,
       ScaleCall (hybrid_primary (Layout screenLayout)),
       CopyRowsCall HybridBuffer (GetHybridScreenTranslation screenLayout)
         (scaled_size NDS_SCREEN_SIZE (HybridRatio screenLayout)),
       CopyRowsCall (ScreenBuffer Top) (GetTopScreenTranslation screenLayout) NDS_SCREEN_SIZE]"
    and is_bottom: "hybrid_primary (Layout screenLayout) = Bottom"
    if "HybridSmallScreenLayout screenLayout = FocusedOnly"
      "Layout screenLayout = HybridBottom \<or> Layout screenLayout = FlippedHybridBottom"
    using assms that by (auto simp: CombineScreens_calls_def Let_def hybrid_primary_def)
  show ?thesis
  proof (intro conjI impI)
    assume "HybridSmallScreenLayout screenLayout = Both"
    then show "CombineScreens_calls ext screenLayout =
              [ClearCall,
               ScaleCall (hybrid_primary (Layout screenLayout)),
               CopyRowsCall HybridBuffer (GetHybridScreenTranslation screenLayout)
                 (scaled_size NDS_SCREEN_SIZE (HybridRatio screenLayout)),
               CopyRowsCall (ScreenBuffer Top) (GetTopScreenTranslation screenLayout)
                 NDS_SCREEN_SIZE,
               CopyRowsCall (ScreenBuffer Bottom) (GetBottomScreenTranslation screenLayout)
                 NDS_SCREEN_SIZE]"
      by (rule both)
  next
    assume b: "HybridSmallScreenLayout screenLayout = Both"
    show "CombineScreens ext topBuffer bottomBuffer screenLayout st =
                st\<lparr>hybridBuffer := scaled_primary ext topBuffer bottomBuffer screenLayout st,
                   buffer :=
                     CopyRows
                       (CopyRows (magnified_copy ext topBuffer bottomBuffer screenLayout st)
                          topBuffer (GetTopScreenTranslation screenLayout) NDS_SCREEN_SIZE)
                       bottomBuffer (GetBottomScreenTranslation screenLayout) NDS_SCREEN_SIZE\<rparr>"
      by (simp add: CombineScreens_def both [OF b] scaled_primary_def magnified_copy_def
          source_data_def screen_data_def)
  next
    assume f: "HybridSmallScreenLayout screenLayout = FocusedOnly
        \<and> (Layout screenLayout = HybridTop \<or> Layout screenLayout = FlippedHybridTop)"
    then show "CombineScreens_calls ext screenLayout =
              [ClearCall,
               ScaleCall Top,
               CopyRowsCall HybridBuffer (GetHybridScreenTranslation screenLayout)
                 (scaled_size NDS_SCREEN_SIZE (HybridRatio screenLayout)),
               CopyRowsCall (ScreenBuffer Bottom) (GetBottomScreenTranslation screenLayout)
                 NDS_SCREEN_SIZE]"
      using top_primary is_top by simp
    from f show "hybrid_primary (Layout screenLayout) = Top"
      using is_top by simp
    from f have calls: "CombineScreens_calls ext screenLayout =
      [ClearCall,
       ScaleCall (hybrid_primary (Layout screenLayout)),
       CopyRowsCall HybridBuffer (GetHybridScreenTranslation screenLayout)
         (scaled_size NDS_SCREEN_SIZE (HybridRatio screenLayout)),
       CopyRowsCall (ScreenBuffer Bottom) (GetBottomScreenTranslation screenLayout)
         NDS_SCREEN_SIZE]"
      using top_primary by simp
    show "CombineScreens ext topBuffer bottomBuffer screenLayout st =
                st\<lparr>hybridBuffer := scaled_primary ext topBuffer bottomBuffer screenLayout st,
                   buffer :=
                     CopyRows (magnified_copy ext topBuffer bottomBuffer screenLayout st)
                       bottomBuffer (GetBottomScreenTranslation screenLayout) NDS_SCREEN_SIZE\<rparr>"
      by (simp add: CombineScreens_def calls scaled_primary_def magnified_copy_def
          source_data_def screen_data_def)
  next
    assume f: "HybridSmallScreenLayout screenLayout = FocusedOnly
        \<and> (Layout screenLayout = HybridBottom \<or> Layout screenLayout = FlippedHybridBottom)"
    then show "CombineScreens_calls ext screenLayout =
              [ClearCall,
               ScaleCall Bottom,
               CopyRowsCall HybridBuffer (GetHybridScreenTranslation screenLayout)
                 (scaled_size NDS_SCREEN_SIZE (HybridRatio screenLayout)),
               CopyRowsCall (ScreenBuffer Top) (GetTopScreenTranslation screenLayout)
                 NDS_SCREEN_SIZE]"
      using bottom_primary is_bottom by simp
    from f show "hybrid_primary (Layout screenLayout) = Bottom"
      using is_bottom by simp
    from f have calls: "CombineScreens_calls ext screenLayout =
      [ClearCall,
       ScaleCall (hybrid_primary (Layout screenLayout)),
       CopyRowsCall HybridBuffer (GetHybridScreenTranslation screenLayout)
         (scaled_size NDS_SCREEN_SIZE (HybridRatio screenLayout)),
       CopyRowsCall (ScreenBuffer Top) (GetTopScreenTranslation screenLayout) NDS_SCREEN_SIZE]"
      using bottom_primary by simp
    show "CombineScreens ext topBuffer bottomBuffer screenLayout st =
                st\<lparr>hybridBuffer := scaled_primary ext topBuffer bottomBuffer screenLayout st,
                   buffer :=
                     CopyRows (magnified_copy ext topBuffer bottomBuffer screenLayout st)
                       topBuffer (GetTopScreenTranslation screenLayout) NDS_SCREEN_SIZE\<rparr>"
      by (simp add: CombineScreens_def calls scaled_primary_def magnified_copy_def
          source_data_def screen_data_def)
  qed
qed

theorem hybrid_side_screens_witness:
  "IsHybridLayout (Layout (example_hybrid HybridBottom FocusedOnly))
   \<and> HybridSmallScreenLayout (example_hybrid HybridBottom FocusedOnly) = FocusedOnly
   \<and> CombineScreens_calls example_externals (example_hybrid HybridBottom FocusedOnly) =
        [ClearCall, ScaleCall Bottom, CopyRowsCall HybridBuffer (0, 0) (512, 384),
         CopyRowsCall (ScreenBuffer Top) (512, 0) (256, 192)]
   \<and> pixel (buffer (CombineScreens example_externals (TopFramebuffer example_nds)
        (BottomFramebuffer example_nds) (example_hybrid HybridBottom FocusedOnly)
        (example_state (768, 384)))) (0, 0) = 0xFF00FF00
   \<and> pixel (buffer (CombineScreens example_externals (TopFramebuffer example_nds)
        (BottomFramebuffer example_nds) (example_hybrid HybridBottom FocusedOnly)
        (example_state (768, 384)))) (512, 0) = 0xFF0000FF
   \<and> pixel (buffer (CombineScreens example_externals (TopFramebuffer example_nds)
        (BottomFramebuffer example_nds) (example_hybrid HybridBottom FocusedOnly)
        (example_state (768, 384)))) (512, 192) = ClearValue
   \<and> IsHybridLayout (Layout (example_hybrid FlippedHybridTop Both))
   \<and> HybridSmallScreenLayout (example_hybrid FlippedHybridTop Both) = Both
   \<and> CombineScreens_calls example_externals (example_hybrid FlippedHybridTop Both) =
        [ClearCall, ScaleCall Top, CopyRowsCall HybridBuffer (0, 0) (512, 384),
         CopyRowsCall (ScreenBuffer Top) (512, 0) (256, 192),
         CopyRowsCall (ScreenBuffer Bottom) (512, 192) (256, 192)]
   \<and> pixel (buffer (CombineScreens example_externals (TopFramebuffer example_nds)
        (BottomFramebuffer example_nds) (example_hybrid FlippedHybridTop Both)
        (example_state (768, 384)))) (512, 0) = 0xFF0000FF
   \<and> pixel (buffer (CombineScreens example_externals (TopFramebuffer example_nds)
        (BottomFramebuffer example_nds) (example_hybrid FlippedHybridTop Both)
        (example_state (768, 384)))) (512, 192) = 0xFF00FF00"
proof -
  have h1: "IsHybridLayout (Layout (example_hybrid HybridBottom FocusedOnly))"
    and h2: "IsHybridLayout (Layout (example_hybrid FlippedHybridTop Both))"
    by (simp_all add: IsHybridLayout_def example_hybrid_def)
  have geometry: "in_rect (0, 0) (512, 384) (0, 0)" "\<not> in_rect (512, 0) (256, 192) (0, 0)"
    "in_rect (512, 0) (256, 192) (512, 0)" "\<not> in_rect (512, 192) (256, 192) (512, 0)"
    "\<not> in_rect (0, 0) (512, 384) (512, 192)" "\<not> in_rect (512, 0) (256, 192) (512, 192)"
    "in_rect (512, 192) (256, 192) (512, 192)"
    by (simp_all add: in_rect_def)
  from hybrid_side_screens [OF h1, of example_externals "TopFramebuffer example_nds"
         "BottomFramebuffer example_nds" "example_state (768, 384)"]
       hybrid_side_screens [OF h2, of example_externals "TopFramebuffer example_nds"
         "BottomFramebuffer example_nds" "example_state (768, 384)"] h1 h2
  show ?thesis
    by (simp add: example_hybrid_def scaled_size_def NDS_SCREEN_SIZE_def NDS_SCREEN_WIDTH_def
        NDS_SCREEN_HEIGHT_def hybrid_primary_def magnified_copy_def scaled_primary_def
        CopyRows_def Clear_def buffer_data_def load_data_def screen_data_def
        example_externals_def example_nds_def example_state_def geometry)
qed

subsection \<open>The scale of the cursor\<close>

text \<open>
  C5, as stated, fails: in \<open>HybridBottom\<close> the bottom screen is the primary, magnified
  one (ratio 2 here), and the scale of the cursor is 1.
\<close>

theorem cursor_scale_hybrid_bottom_counterexample:
  "IsHybridLayout (Layout (example_hybrid HybridBottom Both))
   \<and> hybrid_primary (Layout (example_hybrid HybridBottom Both)) = Bottom
   \<and> HybridRatio (example_hybrid HybridBottom Both) = 2
   \<and> cursor_scale (example_hybrid HybridBottom Both) = 1"
  by (simp add: example_hybrid_def IsHybridLayout_def hybrid_primary_def cursor_scale_def)

text \<open>
  C5, amended. The scale of the cursor is the magnification ratio exactly in the
  large-screen layouts whose primary is the bottom screen (\<open>LargescreenBottom\<close>,
  \<open>FlippedLargescreenBottom\<close>: the layouts in which \<open>CombineScreens\<close> puts the
  magnified bottom screen at the bottom screen's translation), and 1 in every other layout,
  the hybrid ones included.
\<close>

theorem cursor_scale_largescreen_bottom:
  "cursor_scale screenLayout =
     (if IsLargeScreenLayout (Layout screenLayout) \<and> \<not> focusTop (Layout screenLayout)
      then int (HybridRatio screenLayout)
      else 1)"
  by (auto simp: cursor_scale_def IsLargeScreenLayout_def focusTop_def)

theorem cursor_scale_largescreen_bottom_witness:
  "cursor_scale example_layout = 2
   \<and> IsLargeScreenLayout (Layout example_layout) \<and> \<not> focusTop (Layout example_layout)
   \<and> cursor_scale (example_hybrid FlippedHybridBottom FocusedOnly) = 1
   \<and> \<not> IsLargeScreenLayout (Layout (example_hybrid FlippedHybridBottom FocusedOnly))"
  using cursor_scale_largescreen_bottom [of example_layout]
        cursor_scale_largescreen_bottom [of "example_hybrid FlippedHybridBottom FocusedOnly"]
  by (simp add: example_layout_def example_hybrid_def IsLargeScreenLayout_def focusTop_def)

subsection \<open>\<open>CombineScreens\<close> under \<open>TopOnly\<close>\<close>

lemma CombineScreens_TopOnly_calls:
  assumes "Layout screenLayout = TopOnly"
  shows "CombineScreens_calls ext screenLayout =
     [ClearCall, CopyScreen ext (ScreenBuffer Top) (GetTopScreenTranslation screenLayout) TopOnly]"
  using assms by (simp add: CombineScreens_calls_def IsHybridLayout_def IsLargeScreenLayout_def)

lemma CombineScreens_TopOnly_buffer:
  assumes "Layout screenLayout = TopOnly"
  shows "buffer (CombineScreens ext topBuffer bottomBuffer screenLayout st) =
     CopyRows (Clear (buffer st)) topBuffer (GetTopScreenTranslation screenLayout) NDS_SCREEN_SIZE"
  by (simp add: CombineScreens_def CombineScreens_TopOnly_calls [OF assms] CopyScreen_def
      CopyDirect_def source_data_def screen_data_def)

text \<open>
  C6. With the layout \<open>TopOnly\<close>, after \<open>CombineScreens\<close> every pixel outside the
  destination rectangle of the top screen (so every pixel of the region of the lower
  screen) is the clear value, whatever the buffer held before the call.
\<close>

theorem TopOnly_rest_is_clear:
  assumes "Layout screenLayout = TopOnly"
  shows "\<forall>p. \<not> in_rect (GetTopScreenTranslation screenLayout) NDS_SCREEN_SIZE p \<longrightarrow>
           pixel (buffer (CombineScreens ext topBuffer bottomBuffer screenLayout st)) p = ClearValue"
  by (simp add: CombineScreens_TopOnly_buffer [OF assms] CopyRows_def Clear_def)

theorem TopOnly_rest_is_clear_witness:
  "Layout example_top_only = TopOnly
   \<and> \<not> in_rect (GetTopScreenTranslation example_top_only) NDS_SCREEN_SIZE (10, 200)
   \<and> pixel (buffer (example_state (256, 384))) (10, 200) = 0x12345678
   \<and> pixel (buffer (CombineScreens example_externals (TopFramebuffer example_nds)
        (BottomFramebuffer example_nds) example_top_only (example_state (256, 384)))) (10, 200)
      = ClearValue"
proof -
  have l: "Layout example_top_only = TopOnly"
    by (simp add: example_top_only_def)
  have out: "\<not> in_rect (GetTopScreenTranslation example_top_only) NDS_SCREEN_SIZE (10, 200)"
    by (simp add: in_rect_def example_top_only_def NDS_SCREEN_SIZE_def NDS_SCREEN_WIDTH_def
        NDS_SCREEN_HEIGHT_def)
  from TopOnly_rest_is_clear [OF l, of example_externals "TopFramebuffer example_nds"
      "BottomFramebuffer example_nds" "example_state (256, 384)"] out
  have "pixel (buffer (CombineScreens example_externals (TopFramebuffer example_nds)
        (BottomFramebuffer example_nds) example_top_only (example_state (256, 384)))) (10, 200)
      = ClearValue"
    by blast
  with l out show ?thesis by (simp add: example_state_def)
qed

subsection \<open>What \<open>Render\<close> hands to the host\<close>

lemma Size_perform:
  "Size (buffer (perform ext topBuffer bottomBuffer st call)) = Size (buffer st)"
  by (cases call) (simp_all add: Clear_def CopyRows_def CopyDirect_def)

lemma Size_perform_all:
  "Size (buffer (foldl (perform ext topBuffer bottomBuffer) st calls)) = Size (buffer st)"
  by (induction calls arbitrary: st) (simp_all add: Size_perform)

lemma Size_CombineScreens:
  "Size (buffer (CombineScreens ext topBuffer bottomBuffer screenLayout st)) = Size (buffer st)"
  by (simp add: CombineScreens_def Size_perform_all)

lemma Size_resize_buffers:
  "Size (buffer (resize_buffers config screenLayout st)) = BufferSize screenLayout"
  by (simp add: resize_buffers_def Let_def SetSize_def)

text \<open>
  C9, as stated, fails: with a blue top screen (\<open>0xFF0000FF\<close>) and the layout
  \<open>TopOnly\<close>, the pixel handed to \<open>video_refresh\<close> at the origin is \<open>0xFF0000FF\<close>,
  the pixel as composed, not its channel-swapped value \<open>0xFFFF0000\<close>.
\<close>

theorem Render_swap_counterexample:
  "delivered_pixel
     (Render example_externals False example_nds (example_input (10, 10)) example_config
        example_top_only (example_state (1, 1))) (0, 0) = Some 0xFF0000FF
   \<and> TopFramebuffer example_nds 0 = 0xFF0000FF
   \<and> conv_argb8888_abgr8888 (TopFramebuffer example_nds 0) = 0xFFFF0000
   \<and> delivered_pixel
     (Render example_externals False example_nds (example_input (10, 10)) example_config
        example_top_only (example_state (1, 1))) (0, 0)
     \<noteq> Some (conv_argb8888_abgr8888 (TopFramebuffer example_nds 0))"
  by (simp add: Render_def resize_buffers_def Let_def delivered_pixel_def example_top_only_def
      example_nds_def example_input_def example_state_def example_externals_def example_config_def
      IsHybridLayout_def IsLargeScreenLayout_def DrawCursor_def DrawCursor_calls_def
      CombineScreens_def CombineScreens_calls_def CopyScreen_def CopyDirect_def CopyRows_def
      Clear_def SetSize_def in_rect_def source_data_def screen_data_def NDS_SCREEN_SIZE_def
      NDS_SCREEN_WIDTH_def NDS_SCREEN_HEIGHT_def conv_argb8888_abgr8888_def)

text \<open>
  C9, amended. In every layout \<open>Render\<close> ends normally and hands to
  \<open>video_refresh\<close> the buffer that \<open>CombineScreens\<close> and, when the lid is open and the
  cursor visible, \<open>DrawCursor\<close> have left, as it is and with the layout's size: the
  pixels are in the order of composition (under \<open>TopOnly\<close>, bit for bit the pixels of
  the top screen). The channel swap is applied only to the copy that goes to the
  profiler's \<open>FrameImage\<close>, when the profiler is available.
\<close>

theorem Render_delivers_composition_order:
  "\<exists>out. Render ext tracyAvailable nds inputState config screenLayout st = Inr out
     \<and> (if \<not> IsLidClosed nds \<and> CursorVisible inputState
         then DrawCursor inputState config screenLayout
                (CombineScreens ext (TopFramebuffer nds) (BottomFramebuffer nds) screenLayout
                   (resize_buffers config screenLayout st)) = Inr (state_after out)
         else state_after out =
                CombineScreens ext (TopFramebuffer nds) (BottomFramebuffer nds) screenLayout
                  (resize_buffers config screenLayout st))
     \<and> video_refresh out = buffer (state_after out)
     \<and> Size (video_refresh out) = BufferSize screenLayout
     \<and> FrameImage out =
         (if tracyAvailable
          then Some (\<lambda>p. conv_argb8888_abgr8888 (pixel (video_refresh out) p))
          else None)
     \<and> (Layout screenLayout = TopOnly \<longrightarrow>
          (\<forall>p. in_rect (GetTopScreenTranslation screenLayout) NDS_SCREEN_SIZE p \<longrightarrow>
             pixel (video_refresh out) p =
               TopFramebuffer nds
                 ((snd p - snd (GetTopScreenTranslation screenLayout)) * fst NDS_SCREEN_SIZE
                  + (fst p - fst (GetTopScreenTranslation screenLayout)))))"
proof -
  let ?st3 = "CombineScreens ext (TopFramebuffer nds) (BottomFramebuffer nds) screenLayout
                (resize_buffers config screenLayout st)"
  have size3: "Size (buffer ?st3) = BufferSize screenLayout"
    by (simp add: Size_CombineScreens Size_resize_buffers)
  show ?thesis
  proof (cases "Layout screenLayout = TopOnly")
    case False
    then show ?thesis
      using size3 by (simp add: Render_def Let_def DrawCursor_eq)
  next
    case True
    have cur: "DrawCursor inputState config screenLayout st' = Inr st'" for st'
      using True by (simp add: DrawCursor_def DrawCursor_calls_def)
    have "pixel (buffer ?st3) p =
        TopFramebuffer nds
          ((snd p - snd (GetTopScreenTranslation screenLayout)) * fst NDS_SCREEN_SIZE
           + (fst p - fst (GetTopScreenTranslation screenLayout)))"
      if "in_rect (GetTopScreenTranslation screenLayout) NDS_SCREEN_SIZE p" for p
      using that by (simp add: CombineScreens_TopOnly_buffer [OF True] CopyRows_def)
    then show ?thesis
      using size3 by (simp add: Render_def Let_def cur)
  qed
qed

theorem Render_delivers_composition_order_witness:
  "Layout example_top_only = TopOnly
   \<and> in_rect (GetTopScreenTranslation example_top_only) NDS_SCREEN_SIZE (0, 0)
   \<and> delivered_pixel
     (Render example_externals True example_nds (example_input (10, 10)) example_config
        example_top_only (example_state (1, 1))) (0, 0) = Some 0xFF0000FF
   \<and> TopFramebuffer example_nds 0 = 0xFF0000FF
   \<and> profiler_pixel
     (Render example_externals True example_nds (example_input (10, 10)) example_config
        example_top_only (example_state (1, 1))) (0, 0) = Some 0xFFFF0000
   \<and> delivered_pixel
     (Render example_externals False (example_nds\<lparr>IsLidClosed := True\<rparr>)
        (example_input (10, 10)) example_config (example_hybrid HybridTop Both)
        (example_state (1, 1))) (512, 192) = Some 0xFF00FF00
   \<and> profiler_pixel
     (Render example_externals False (example_nds\<lparr>IsLidClosed := True\<rparr>)
        (example_input (10, 10)) example_config (example_hybrid HybridTop Both)
        (example_state (1, 1))) (512, 192) = None"
proof -
  have l: "Layout example_top_only = TopOnly"
    by (simp add: example_top_only_def)
  from Render_delivers_composition_order [of example_externals False
      "example_nds\<lparr>IsLidClosed := True\<rparr>" "example_input (10, 10)" example_config
      "example_hybrid HybridTop Both" "example_state (1, 1)"]
  obtain out2 where out2: "Render example_externals False (example_nds\<lparr>IsLidClosed := True\<rparr>)
        (example_input (10, 10)) example_config (example_hybrid HybridTop Both)
        (example_state (1, 1)) = Inr out2"
    and after2: "state_after out2 =
        CombineScreens example_externals (TopFramebuffer example_nds)
          (BottomFramebuffer example_nds) (example_hybrid HybridTop Both)
          (resize_buffers example_config (example_hybrid HybridTop Both) (example_state (1, 1)))"
    and refresh2: "video_refresh out2 = buffer (state_after out2)"
    and frame2: "FrameImage out2 = None"
    by auto
  have geometry: "in_rect (512, 192) (256, 192) (512, 192)"
    by (simp add: in_rect_def)
  have d2: "pixel (video_refresh out2) (512, 192) = 0xFF00FF00"
    unfolding refresh2 after2
    by (simp add: CombineScreens_def CombineScreens_calls_def IsHybridLayout_def
        example_hybrid_def hybrid_primary_def source_data_def screen_data_def CopyRows_def
        NDS_SCREEN_SIZE_def NDS_SCREEN_WIDTH_def NDS_SCREEN_HEIGHT_def example_nds_def
        geometry)
  have r: "in_rect (GetTopScreenTranslation example_top_only) NDS_SCREEN_SIZE (0, 0)"
    by (simp add: in_rect_def example_top_only_def NDS_SCREEN_SIZE_def NDS_SCREEN_WIDTH_def
        NDS_SCREEN_HEIGHT_def)
  from Render_delivers_composition_order [of example_externals True example_nds
      "example_input (10, 10)" example_config example_top_only "example_state (1, 1)"]
  obtain out where out: "Render example_externals True example_nds (example_input (10, 10))
        example_config example_top_only (example_state (1, 1)) = Inr out"
    and frame: "FrameImage out = Some (\<lambda>p. conv_argb8888_abgr8888 (pixel (video_refresh out) p))"
    and px: "\<forall>p. in_rect (GetTopScreenTranslation example_top_only) NDS_SCREEN_SIZE p \<longrightarrow>
             pixel (video_refresh out) p =
               TopFramebuffer example_nds
                 ((snd p - snd (GetTopScreenTranslation example_top_only)) * fst NDS_SCREEN_SIZE
                  + (fst p - fst (GetTopScreenTranslation example_top_only)))"
    using l by auto
  have src: "TopFramebuffer example_nds 0 = 0xFF0000FF"
    by (simp add: example_nds_def)
  from px r have d: "pixel (video_refresh out) (0, 0) = 0xFF0000FF"
    by (simp add: example_nds_def)
  have swapped: "conv_argb8888_abgr8888 0xFF0000FF = 0xFFFF0000"
    by (simp add: conv_argb8888_abgr8888_def)
  show ?thesis
    unfolding out out2 delivered_pixel_def profiler_pixel_def
    by (simp add: frame d src swapped l r frame2 d2)
qed

subsection \<open>The containment test of the shader\<close>

text \<open>
  C7. The containment test is half-open in both axes, \<open>x \<in> [left, right)\<close> and
  \<open>y \<in> [top, bottom)\<close>: a fragment on the right or on the
  bottom edge of the cursor rectangle is outside, and its pixel leaves \<open>main\<close> unmodified
  (only reordered to \<open>bgr\<close> with alpha 1, as every pixel is); a fragment on the left edge
  or on the top edge (the rectangle not empty, the other coordinate within it) is inside.
\<close>

theorem containment_half_open:
  "(inside (left, top', right, bottom) (fx, fy) \<longleftrightarrow>
      left \<le> fx \<and> fx < right \<and> top' \<le> fy \<and> fy < bottom)
   \<and> \<not> inside (left, top', right, bottom) (right, fy)
   \<and> \<not> inside (left, top', right, bottom) (fx, bottom)
   \<and> (left < right \<and> top' \<le> fy \<and> fy < bottom \<longrightarrow> inside (left, top', right, bottom) (left, fy))
   \<and> (top' < bottom \<and> left \<le> fx \<and> fx < right \<longrightarrow> inside (left, top', right, bottom) (fx, top'))
   \<and> (\<not> inside (cursorPos uniforms) fTexcoord \<longrightarrow>
        main uniforms (r, g, b, a) fTexcoord = (b, g, r, 1))"
proof -
  have half_open: "inside (left, top', right, bottom) (fx, fy) \<longleftrightarrow>
      left \<le> fx \<and> fx < right \<and> top' \<le> fy \<and> fy < bottom"
    by (simp add: inside_def)
  have right_edge: "\<not> inside (left, top', right, bottom) (right, fy)"
    and bottom_edge: "\<not> inside (left, top', right, bottom) (fx, bottom)"
    by (simp_all add: inside_def)
  have left_edge: "left < right \<and> top' \<le> fy \<and> fy < bottom \<longrightarrow>
      inside (left, top', right, bottom) (left, fy)"
    and top_edge: "top' < bottom \<and> left \<le> fx \<and> fx < right \<longrightarrow>
      inside (left, top', right, bottom) (fx, top')"
    by (simp_all add: inside_def)
  have unmodified: "main uniforms (r, g, b, a) fTexcoord = (b, g, r, 1)"
    if "\<not> inside (cursorPos uniforms) fTexcoord"
  proof -
    obtain px py pz pw where pos: "cursorPos uniforms = (px, py, pz, pw)"
      by (cases "cursorPos uniforms") auto
    show ?thesis
      using that by (simp add: main_def pos)
  qed
  from half_open right_edge bottom_edge left_edge top_edge unmodified show ?thesis
    by (intro conjI impI) simp_all
qed

lemma bucket_left: "bucket 0 = 0"
  by (simp add: bucket_def clamp_def)

lemma bucket_half: "bucket (1 / 2) = 2"
proof -
  have "\<lfloor>(1 / 2 :: real) * 5 - 1 / 1000000\<rfloor> = 2"
    by (simp add: floor_eq_iff)
  then show ?thesis by (simp add: bucket_def clamp_def)
qed

theorem containment_half_open_witness:
  "(1 / 4 :: real) < 1 / 2 \<and> (3 / 5 :: real) \<le> 7 / 10 \<and> (7 / 10 :: real) < 4 / 5
   \<and> inside (1 / 4, 3 / 5, 1 / 2, 4 / 5) (1 / 4, 7 / 10)
   \<and> \<not> inside (1 / 4, 3 / 5, 1 / 2, 4 / 5) (1 / 2, 7 / 10)
   \<and> inside (1 / 4, 3 / 5, 1 / 2, 4 / 5) (3 / 10, 3 / 5)
   \<and> \<not> inside (1 / 4, 3 / 5, 1 / 2, 4 / 5) (3 / 10, 4 / 5)
   \<and> \<not> inside (cursorPos example_uniforms) (1 / 2, 7 / 10)
   \<and> main example_uniforms (1 / 5, 2 / 5, 3 / 5, 1) (1 / 2, 7 / 10) = (3 / 5, 2 / 5, 1 / 5, 1)
   \<and> main example_uniforms (1 / 5, 2 / 5, 3 / 5, 1) (1 / 4, 7 / 10) = (0, 0, 0, 1)"
proof -
  have pos: "cursorPos example_uniforms = (1 / 4, 3 / 5, 1 / 2, 4 / 5)"
    and vis: "cursorVisible example_uniforms"
    by (simp_all add: example_uniforms_def)
  have ins: "inside (1 / 4, 3 / 5, 1 / 2, 4 / 5) (1 / 4, 7 / 10)"
    by (simp add: inside_def)
  have u: "clamp ((1 / 4 - 1 / 4) / max (1 / 2 - 1 / 4) (1 / 1000000 :: real)) 0 1 = 0"
    by (simp add: clamp_def)
  have v: "clamp ((7 / 10 - 3 / 5) / max (4 / 5 - 3 / 5) (1 / 1000000 :: real)) 0 1 = 1 / 2"
    by (simp add: clamp_def)
  have cell: "frag_cell 0 2 = Black"
    by (simp add: frag_cell_def Let_def)
  have edge: "main example_uniforms (1 / 5, 2 / 5, 3 / 5, 1) (1 / 4, 7 / 10) = (0, 0, 0, 1)"
    unfolding main_def pos
    by (simp only: prod.case fst_conv snd_conv Let_def vis ins u v bucket_left bucket_half cell
        Paint.case if_True) simp
  have out: "\<not> inside (cursorPos example_uniforms) (1 / 2, 7 / 10)"
    by (simp add: inside_def pos)
  from containment_half_open [of "1 / 4" "3 / 5" "1 / 2" "4 / 5" "3 / 10" "7 / 10"
      example_uniforms "(1 / 2, 7 / 10)" "1 / 5" "2 / 5" "3 / 5" 1] edge out
  show ?thesis by simp
qed

subsection \<open>CPU and fragment classification\<close>

text \<open>
  C1. For each of the 25 buckets \<open>bx, by \<in> [0, 4]\<close> of the shader, the shader's
  classification (with \<open>dx = bx - 2\<close>, \<open>dy = by - 2\<close>) is the CPU classification of the
  base cell \<open>(bx - 2, by - 2) \<in> [-2, 2]\<^sup>2\<close>: both give white, black or untouched alike.
\<close>

theorem cpu_frag_agree:
  "\<forall>bx\<in>{0..4}. \<forall>by'\<in>{0..4}. frag_cell bx by' = cpu_cell (bx - 2) (by' - 2)"
  by (auto simp: frag_cell_def cpu_cell_def Let_def)

theorem cpu_frag_agree_witness:
  "(0::int) \<in> {0..4} \<and> (3::int) \<in> {0..4}
   \<and> frag_cell 0 3 = cpu_cell (- 2) 1 \<and> cpu_cell (- 2) 1 = Black"
  using cpu_frag_agree by (simp add: cpu_cell_def Let_def)

end
